theory Spec2Isabelle
  imports Complex_Main "HOL-Library.Sublist" "HOL-Library.AList"
begin

section \<open>Python values and helpers\<close>

text \<open>
  Exceptions of the source are values. Only the classes the source distinguishes are kept apart;
  every other exception (a failing collaborator, a pandas or encoder error) is \<open>Exception\<close>
  with its message.
\<close>

datatype exn = RuntimeError string | JSONDecodeError | TypeError string | Exception string

text \<open>
  Python numbers are modelled as exact reals: the source compares and averages floats, and the
  model keeps the arithmetic the source writes without the binary rounding of each operation.
  \<open>int(x)\<close> truncates towards zero.
\<close>

definition py_int :: "real \<Rightarrow> int" where
  "py_int x = (if 0 \<le> x then \<lfloor>x\<rfloor> else \<lceil>x\<rceil>)"

text \<open>
  \<open>d.get(k, default)\<close>: a key that may be absent is an option field, \<open>None\<close> for the absent
  key. (A key present with the value \<open>None\<close> is not modelled.)
\<close>

definition get_default :: "'a option \<Rightarrow> 'a \<Rightarrow> 'a" where
  "get_default field dflt = (case field of None \<Rightarrow> dflt | Some v \<Rightarrow> v)"

text \<open>\<open>if c: xs.append(a)\<close>, the step by which the source builds its lists.\<close>

definition append_when :: "bool \<Rightarrow> 'a \<Rightarrow> 'a list \<Rightarrow> 'a list" where
  "append_when c a xs = (if c then xs @ [a] else xs)"

text \<open>\<open>str(n)\<close> for integers, most significant digit first.\<close>

definition digit_char :: "nat \<Rightarrow> char" where
  "digit_char n = ''0123456789'' ! n"

function str_nat :: "nat \<Rightarrow> string" where
  "str_nat n = (if n < 10 then [digit_char n] else str_nat (n div 10) @ [digit_char (n mod 10)])"
  by pat_completeness auto
termination
  by (relation "measure id") auto

declare str_nat.simps [simp del]

definition str_int :: "int \<Rightarrow> string" where
  "str_int i = (if i < 0 then CHR ''-'' # str_nat (nat (- i)) else str_nat (nat i))"

text \<open>\<open>str\<close> of a value that may be \<open>None\<close>, as an f-string prints it.\<close>

definition str_opt :: "string option \<Rightarrow> string" where
  "str_opt v = (case v of None \<Rightarrow> ''None'' | Some s \<Rightarrow> s)"

text \<open>\<open>s in p\<close> on strings is the contiguous-substring test.\<close>

definition py_in_str :: "string \<Rightarrow> string \<Rightarrow> bool" where
  "py_in_str s p = sublist s p"

section \<open>Records passed between the agents of \<open>backend/app\<close>\<close>

text \<open>
  The dictionaries the agents return have a fixed set of keys, so each is a record; a key that
  is only added later (\<open>case_id\<close>, \<open>alerts_sent\<close>) is an option field, \<open>None\<close> while the key
  is absent.
\<close>

record monitor_result =
  mr_fraud_probability :: real
  mr_risk_score :: int
  mr_llm_explanation :: string
  mr_recommendation :: string
  mr_agent :: string

record deepfake_result =
  df_is_deepfake :: bool
  df_deepfake_confidence :: real
  df_face_match_score :: real
  df_code_validated :: bool
  df_verification_passed :: bool
  df_llm_explanation :: string
  df_agent :: string

record user_profile =
  up_user_id :: "string option"
  up_avg_transaction_amount :: "real option"
  up_known_devices :: "string list option"
  up_account_age_days :: "int option"
  up_total_transactions :: "int option"

text \<open>
  \<open>transaction_data\<close>: the request's fields plus the generated identifier. Every key is read
  with \<open>.get\<close>, so every field is optional.
\<close>

record transaction =
  tx_transaction_id :: "string option"
  tx_user_id :: "string option"
  tx_transaction_amount :: "real option"
  tx_transaction_type :: "string option"
  tx_merchant_category :: "string option"
  tx_device_type :: "string option"
  tx_location :: "string option"
  tx_transaction_distance :: "real option"

record photo_data =
  pd_s3_path :: string
  pd_filename :: string

record sagemaker_input =
  si_uploaded_photo_s3 :: string
  si_reference_photo_s3 :: string
  si_expected_code :: string

record detection_result =
  dr_is_deepfake :: "bool option"
  dr_deepfake_confidence :: "real option"
  dr_face_match_score :: "real option"
  dr_code_validated :: "bool option"

record history_txn =
  ht_transaction_id :: "string option"
  ht_timestamp :: "string option"
  ht_transaction_amount :: "real option"
  ht_merchant_category :: "string option"

record timeline_entry =
  tl_time :: "string option"
  tl_event :: string

record evidence =
  ev_user_profile :: user_profile
  ev_transaction_history_count :: nat
  ev_recent_24h_count :: nat
  ev_timeline :: "timeline_entry list"
  ev_detected_patterns :: "string list"
  ev_llm_summary :: string
  ev_agent :: string

record risk_assessment =
  ra_risk_score :: int
  ra_base_risk :: int
  ra_adjustments :: "(string \<times> int) list"
  ra_status :: string
  ra_confidence :: string
  ra_llm_reasoning :: string
  ra_agent :: string
  ra_case_id :: "string option"
  ra_alerts_sent :: "string option list option"

record escalation_result =
  er_case_id :: string
  er_fraud_report :: string
  er_evidence_s3_path :: string
  er_alerts_sent :: "string option list"
  er_agent :: string

record fraud_case =
  fc_case_id :: string
  fc_transaction_id :: "string option"
  fc_user_id :: "string option"
  fc_risk_score :: int
  fc_status :: string
  fc_amount :: real
  fc_fraud_report :: string
  fc_evidence_s3_path :: string
  fc_created_at :: string

text \<open>
  The dictionary \<open>orchestrate_transaction\<close> returns has one of two shapes: the immediate block
  (\<open>status\<close>, \<open>risk_score\<close>, \<open>reason\<close>, \<open>deepfake_result\<close>) or the full result; a key the
  shape does not have is \<open>None\<close>.
\<close>

record orchestration_result =
  or_status :: string
  or_risk_score :: int
  or_reason :: "string option"
  or_monitor_result :: "monitor_result option"
  or_deepfake_result :: "deepfake_result option"
  or_evidence :: "evidence option"
  or_risk_assessment :: "risk_assessment option"

section \<open>Collaborators and state\<close>

text \<open>
  What the pipeline gets from outside during one run is collected in \<open>env\<close>: the loaded
  classifier (\<open>None\<close> while \<open>MODEL\<close> is not loaded), the clock, the random case suffix, the
  verification endpoint's response, the transaction history of a user, and the text returned by
  each call of the text-generation service. \<open>services/aws_services.py\<close> answers the endpoint
  and history calls with fixed mock data; the model takes them as arbitrary responses, of which
  the mock data is one.

  \<open>prepared_features\<close> stands for lines 79-85 of \<open>fraud_model.py\<close> (\<open>prepare_features\<close>, the
  data frame and the column selection), a step that yields the feature row or raises; the
  classifier maps the feature row to the probability of class 1 or raises.
  \<open>fromisoformat\<close> is \<open>datetime.fromisoformat\<close> (after the \<open>Z\<close> replacement), returning epoch
  seconds, \<open>None\<close> where it raises. \<open>format_money\<close> is the \<open>:,.2f\<close> formatting of a number.
\<close>

type_synonym feature_vector = "(string \<times> real) list"

record env =
  MODEL :: "(feature_vector \<Rightarrow> exn + real) option"
  prepared_features :: "transaction \<Rightarrow> exn + feature_vector"
  now_hour :: nat
  now_epoch :: int
  now_isoformat :: string
  today_yyyymmdd :: string
  random_case_suffix :: nat
  invoke_sagemaker_endpoint :: "sagemaker_input \<Rightarrow> detection_result"
  get_user_transaction_history :: "string option \<Rightarrow> history_txn list"
  fromisoformat :: "string \<Rightarrow> int option"
  format_money :: "real \<Rightarrow> string"
  claude_monitor :: string
  claude_deepfake :: string
  claude_evidence :: string
  claude_risk :: string
  claude_report :: string

datatype agent =
  Transaction_Monitor | Deepfake_Detector | Evidence_Collector | Risk_Assessor | Escalation_Handler

text \<open>
  The mutable state: the in-memory stores of \<open>aws_services.py\<close> that the pipeline reads or
  writes, and a log of the agents the orchestrator has invoked (the source announces each
  invocation with a banner before the call).
\<close>

record world =
  MOCK_USER_PROFILES :: "string option \<rightharpoonup> user_profile"
  MOCK_FRAUD_CASES :: "string \<rightharpoonup> fraud_case"
  agent_log :: "agent list"

section \<open>\<open>app/services/aws_services.py\<close> and \<open>app/utils.py\<close>\<close>

definition get_user_profile :: "world \<Rightarrow> string option \<Rightarrow> user_profile" where
  "get_user_profile w user_id =
     (case MOCK_USER_PROFILES w user_id of
        Some profile \<Rightarrow> profile
      | None \<Rightarrow>
          \<lparr> up_user_id = user_id,
            up_avg_transaction_amount = Some 1000,
            up_known_devices = Some [''Desktop'', ''Mobile''],
            up_account_age_days = Some 365,
            up_total_transactions = Some 150 \<rparr>)"

definition get_user_baseline :: "world \<Rightarrow> string option \<Rightarrow> user_profile" where
  "get_user_baseline w user_id = get_user_profile w user_id"

definition get_reference_photo :: "string option \<Rightarrow> string" where
  "get_reference_photo user_id = ''s3://mock-bucket/reference/'' @ str_opt user_id @ ''.jpg''"

definition save_evidence_package :: "string \<Rightarrow> string" where
  "save_evidence_package case_id = ''s3://mock-bucket/evidence/'' @ case_id @ ''/evidence.json''"

definition create_fraud_case :: "world \<Rightarrow> fraud_case \<Rightarrow> world" where
  "create_fraud_case w fraud_case =
     w\<lparr>MOCK_FRAUD_CASES := (MOCK_FRAUD_CASES w)(fc_case_id fraud_case \<mapsto> fraud_case)\<rparr>"

definition send_sns_alert_MessageId :: "string option" where
  "send_sns_alert_MessageId = Some ''mock-message-id''"

text \<open>
  \<open>calculate_suspicious_flag\<close>, the Suspicion Gate. It looks the baseline up in the profile
  store and reads the hour from the clock; it returns the pair and leaves the state as it
  found it. The list \<open>reasons\<close> is built by appending, rule by rule.
\<close>

definition calculate_suspicious_flag ::
  "env \<Rightarrow> world \<Rightarrow> transaction \<Rightarrow> real \<Rightarrow> (bool \<times> string list) \<times> world" where
  "calculate_suspicious_flag e w transaction_data fraud_probability =
     (let reasons = [];
          user_id = tx_user_id transaction_data;
          amount = get_default (tx_transaction_amount transaction_data) 0;
          user_baseline = get_user_baseline w user_id;
          avg_amount = get_default (up_avg_transaction_amount user_baseline) 1000;
          reasons = append_when (amount > avg_amount * 5 \<and> amount > 5000)
                      ''high_value_deviation'' reasons;
          reasons = append_when (fraud_probability > 0.60) ''ml_high_risk'' reasons;
          device = get_default (tx_device_type transaction_data) ''Desktop'';
          known_devices = get_default (up_known_devices user_baseline) [];
          reasons = append_when (device \<notin> set known_devices \<and> amount > 3000)
                      ''new_device_high_amount'' reasons;
          hour = now_hour e;
          reasons = append_when ((2 \<le> hour \<and> hour \<le> 6) \<and> amount > 2000)
                      ''unusual_hour'' reasons;
          distance = get_default (tx_transaction_distance transaction_data) 0;
          reasons = append_when (distance > 500 \<and> amount > 3000)
                      ''geographic_anomaly'' reasons;
          is_suspicious = length reasons > 0
      in ((is_suspicious, reasons), w))"

section \<open>\<open>app/services/fraud_model.py\<close>\<close>

text \<open>
  \<open>predict_fraud_probability\<close>: the check that the model is loaded raises outside the \<open>try\<close>;
  whatever the body of the \<open>try\<close> raises is caught and answered with 0.5.
\<close>

definition predict_fraud_probability :: "env \<Rightarrow> transaction \<Rightarrow> exn + real" where
  "predict_fraud_probability e transaction_data =
     (case MODEL e of
        None \<Rightarrow> Inl (RuntimeError ''Model not loaded. Call load_fraud_model() first.'')
      | Some model \<Rightarrow>
          (case (case prepared_features e transaction_data of
                   Inl x \<Rightarrow> Inl x
                 | Inr features_df \<Rightarrow> model features_df) of
             Inr fraud_probability \<Rightarrow> Inr fraud_probability
           | Inl x \<Rightarrow> Inr 0.5))"

section \<open>Agents 1-3 and 5 of \<open>backend/app\<close>\<close>

text \<open>Agent 1, \<open>analyze_transaction\<close>: the classifier's probability as a 0-100 score.\<close>

definition analyze_transaction :: "env \<Rightarrow> transaction \<Rightarrow> exn + monitor_result" where
  "analyze_transaction e transaction_data =
     (case predict_fraud_probability e transaction_data of
        Inl x \<Rightarrow> Inl x
      | Inr fraud_probability \<Rightarrow>
          (let risk_score = py_int (fraud_probability * 100);
               llm_explanation = claude_monitor e;
               recommendation = (if risk_score \<ge> 85 then ''BLOCK''
                                 else if risk_score \<ge> 60 then ''REVIEW''
                                 else ''APPROVE'')
           in Inr \<lparr> mr_fraud_probability = fraud_probability,
                    mr_risk_score = risk_score,
                    mr_llm_explanation = llm_explanation,
                    mr_recommendation = recommendation,
                    mr_agent = ''transaction_monitor'' \<rparr>))"

text \<open>Agent 2, \<open>analyze_deepfake\<close>: the endpoint's answer and the overall verdict.\<close>

definition analyze_deepfake :: "env \<Rightarrow> transaction \<Rightarrow> string \<Rightarrow> string \<Rightarrow> deepfake_result" where
  "analyze_deepfake e transaction_data photo_s3_path expected_code =
     (let user_id = tx_user_id transaction_data;
          reference_photo_path = get_reference_photo user_id;
          sagemaker_input = \<lparr> si_uploaded_photo_s3 = photo_s3_path,
                              si_reference_photo_s3 = reference_photo_path,
                              si_expected_code = expected_code \<rparr>;
          detection_result = invoke_sagemaker_endpoint e sagemaker_input;
          is_deepfake = get_default (dr_is_deepfake detection_result) False;
          deepfake_confidence = get_default (dr_deepfake_confidence detection_result) 0;
          face_match_score = get_default (dr_face_match_score detection_result) 0;
          code_validated = get_default (dr_code_validated detection_result) False;
          verification_passed = (\<not> is_deepfake \<and> face_match_score \<ge> 0.80 \<and> code_validated);
          llm_explanation = claude_deepfake e
      in \<lparr> df_is_deepfake = is_deepfake,
           df_deepfake_confidence = deepfake_confidence,
           df_face_match_score = face_match_score,
           df_code_validated = code_validated,
           df_verification_passed = verification_passed,
           df_llm_explanation = llm_explanation,
           df_agent = ''deepfake_detector'' \<rparr>)"

text \<open>
  Agent 3, \<open>collect_evidence\<close>. \<open>is_within_24h\<close> answers \<open>False\<close> for a missing or empty
  timestamp and for one that does not parse.
\<close>

definition is_within_24h :: "env \<Rightarrow> string option \<Rightarrow> bool" where
  "is_within_24h e timestamp =
     (case timestamp of
        None \<Rightarrow> False
      | Some s \<Rightarrow>
          if s = [] then False
          else (case fromisoformat e s of
                  None \<Rightarrow> False
                | Some t \<Rightarrow> now_epoch e - t \<le> 24 * 3600))"

definition timeline_of :: "env \<Rightarrow> history_txn \<Rightarrow> timeline_entry" where
  "timeline_of e txn =
     \<lparr> tl_time = ht_timestamp txn,
       tl_event = ''$'' @ format_money e (get_default (ht_transaction_amount txn) 0) @ '' at ''
                  @ get_default (ht_merchant_category txn) ''Unknown'' \<rparr>"

definition collect_evidence :: "env \<Rightarrow> world \<Rightarrow> transaction \<Rightarrow> evidence" where
  "collect_evidence e w transaction_data =
     (let user_id = tx_user_id transaction_data;
          user_profile = get_user_profile w user_id;
          transaction_history = get_user_transaction_history e user_id;
          history_count = length transaction_history;
          recent_24h = filter (\<lambda>t. is_within_24h e (ht_timestamp t)) transaction_history;
          timeline = map (timeline_of e) (drop (length transaction_history - 5) transaction_history);
          timeline = timeline @
            [\<lparr> tl_time = Some (now_isoformat e),
               tl_event = ''CURRENT: $''
                 @ format_money e (get_default (tx_transaction_amount transaction_data) 0) @ '' at ''
                 @ get_default (tx_merchant_category transaction_data) ''Unknown'' \<rparr>];
          patterns = [];
          current_amount = get_default (tx_transaction_amount transaction_data) 0;
          avg_amount = get_default (up_avg_transaction_amount user_profile) 0;
          patterns = append_when (avg_amount > 0 \<and> current_amount > avg_amount * 5)
                       (''Amount '' @ str_int (py_int (current_amount / avg_amount))
                        @ ''x higher than normal'') patterns;
          patterns = append_when (length recent_24h > 10)
                       (''High velocity: '' @ str_nat (length recent_24h) @ '' transactions in 24h'')
                       patterns;
          patterns = append_when
                       (case tx_device_type transaction_data of
                          None \<Rightarrow> True
                        | Some d \<Rightarrow> d \<notin> set (get_default (up_known_devices user_profile) []))
                       ''New device detected'' patterns;
          llm_summary = claude_evidence e
      in \<lparr> ev_user_profile = user_profile,
           ev_transaction_history_count = history_count,
           ev_recent_24h_count = length recent_24h,
           ev_timeline = timeline,
           ev_detected_patterns = patterns,
           ev_llm_summary = llm_summary,
           ev_agent = ''evidence_collector'' \<rparr>)"

text \<open>
  Agent 5, \<open>handle_escalation\<close>: the case identifier, the report, the evidence location, the
  case record written to the case store, and the alert.
\<close>

definition handle_escalation ::
  "env \<Rightarrow> world \<Rightarrow> transaction \<Rightarrow> risk_assessment \<Rightarrow> evidence \<Rightarrow> escalation_result \<times> world" where
  "handle_escalation e w transaction_data risk_assessment evidence =
     (let transaction_id = tx_transaction_id transaction_data;
          risk_score = ra_risk_score risk_assessment;
          case_id = ''FA-'' @ today_yyyymmdd e @ ''-'' @ str_nat (random_case_suffix e);
          fraud_report = claude_report e;
          evidence_s3_path = save_evidence_package case_id;
          fraud_case = \<lparr> fc_case_id = case_id,
                         fc_transaction_id = transaction_id,
                         fc_user_id = tx_user_id transaction_data,
                         fc_risk_score = risk_score,
                         fc_status = ra_status risk_assessment,
                         fc_amount = get_default (tx_transaction_amount transaction_data) 0,
                         fc_fraud_report = fraud_report,
                         fc_evidence_s3_path = evidence_s3_path,
                         fc_created_at = now_isoformat e \<rparr>;
          w = create_fraud_case w fraud_case;
          sns_MessageId = send_sns_alert_MessageId
      in (\<lparr> er_case_id = case_id,
            er_fraud_report = fraud_report,
            er_evidence_s3_path = evidence_s3_path,
            er_alerts_sent = [sns_MessageId],
            er_agent = ''escalation_handler'' \<rparr>, w))"

section \<open>Agent 4: the risk assessor (\<open>app/agents/risk_assessor.py\<close>)\<close>

text \<open>
  Lines 57-58: the adjustment total is the sum of the deltas, and the composite score is the
  base score plus that total, capped at 100 by \<open>min\<close>.
\<close>

definition composite_risk_score :: "int \<Rightarrow> (string \<times> int) list \<Rightarrow> int" where
  "composite_risk_score base_risk risk_adjustments =
     (let adjustment_total = sum_list (map snd risk_adjustments)
      in min (base_risk + adjustment_total) 100)"

text \<open>
  \<open>assess_risk\<close>. The reasoning text comes from the text-generation collaborator
  (\<open>call_bedrock_claude\<close>, which catches its own failures and always returns a string); the
  prompt only feeds that call, so the model takes the returned text \<open>llm_reasoning\<close> as given.
  The list \<open>risk_adjustments\<close> is built by appending, as in the source; the three deepfake
  conditions are an \<open>if/elif/elif\<close> chain, the three evidence conditions separate \<open>if\<close>s.
\<close>

definition assess_risk ::
  "string \<Rightarrow> monitor_result \<Rightarrow> deepfake_result option \<Rightarrow> evidence \<Rightarrow> risk_assessment" where
  "assess_risk llm_reasoning monitor_result deepfake_result evidence =
     (let base_risk = mr_risk_score monitor_result;
          risk_adjustments = [];
          risk_adjustments =
            (case deepfake_result of
               None \<Rightarrow> risk_adjustments
             | Some d \<Rightarrow>
                 if df_is_deepfake d then risk_adjustments @ [(''Deepfake detected'', 40)]
                 else if df_face_match_score d < 0.80 then risk_adjustments @ [(''Low face match'', 20)]
                 else if \<not> df_code_validated d
                   then risk_adjustments @ [(''Code validation failed'', 15)]
                 else risk_adjustments);
          patterns = ev_detected_patterns evidence;
          risk_adjustments = append_when (list_ex (py_in_str ''higher than normal'') patterns)
                               (''Amount anomaly'', 15) risk_adjustments;
          risk_adjustments = append_when (list_ex (py_in_str ''High velocity'') patterns)
                               (''Velocity spike'', 10) risk_adjustments;
          risk_adjustments = append_when (list_ex (py_in_str ''New device'') patterns)
                               (''New device'', 10) risk_adjustments;
          composite = composite_risk_score base_risk risk_adjustments;
          status = (if composite \<ge> 85 then ''BLOCKED''
                    else if composite \<ge> 70 then ''REVIEW''
                    else if composite \<ge> 50 then ''REVIEW''
                    else ''APPROVED'');
          confidence = (if composite \<ge> 85 then ''very_high''
                        else if composite \<ge> 70 then ''high''
                        else if composite \<ge> 50 then ''medium''
                        else ''low_risk'')
      in \<lparr> ra_risk_score = composite,
           ra_base_risk = base_risk,
           ra_adjustments = risk_adjustments,
           ra_status = status,
           ra_confidence = confidence,
           ra_llm_reasoning = llm_reasoning,
           ra_agent = ''risk_assessor'',
           ra_case_id = None,
           ra_alerts_sent = None \<rparr>)"

section \<open>The orchestrator (\<open>app/orchestrator.py\<close>)\<close>

definition announce :: "agent \<Rightarrow> world \<Rightarrow> world" where
  "announce a w = w\<lparr>agent_log := agent_log w @ [a]\<rparr>"

text \<open>
  Lines 55-98, the part of \<open>orchestrate_transaction\<close> after the biometric stage: evidence,
  risk assessment, escalation when the score is at least 70, and the full result. After the
  escalation the orchestrator stores \<open>case_id\<close> and then \<open>alerts_sent\<close> in the risk
  assessment.
\<close>

definition orchestrate_after_biometric ::
  "env \<Rightarrow> world \<Rightarrow> transaction \<Rightarrow> monitor_result \<Rightarrow> deepfake_result option
     \<Rightarrow> (exn + orchestration_result) \<times> world" where
  "orchestrate_after_biometric e w transaction_data monitor_result deepfake_result =
     (let w = announce Evidence_Collector w;
          evidence = collect_evidence e w transaction_data;
          w = announce Risk_Assessor w;
          risk_assessment = assess_risk (claude_risk e) monitor_result deepfake_result evidence;
          (risk_assessment, w) =
            (if ra_risk_score risk_assessment \<ge> 70 then
               (let w = announce Escalation_Handler w;
                    (escalation_result, w) =
                       handle_escalation e w transaction_data risk_assessment evidence;
                    risk_assessment = risk_assessment\<lparr>ra_case_id := Some (er_case_id escalation_result)\<rparr>;
                    risk_assessment =
                      risk_assessment\<lparr>ra_alerts_sent := Some (er_alerts_sent escalation_result)\<rparr>
                in (risk_assessment, w))
             else (risk_assessment, w))
      in (Inr \<lparr> or_status = ra_status risk_assessment,
                or_risk_score = ra_risk_score risk_assessment,
                or_reason = None,
                or_monitor_result = Some monitor_result,
                or_deepfake_result = deepfake_result,
                or_evidence = Some evidence,
                or_risk_assessment = Some risk_assessment \<rparr>, w))"

text \<open>
  \<open>orchestrate_transaction\<close>. \<open>photo_data and verification_code\<close> holds when the photo
  dictionary is given and the code is a non-empty string. An exception of Agent 1 leaves the
  function. The result is paired with the state the run leaves behind.
\<close>

definition orchestrate_transaction ::
  "env \<Rightarrow> world \<Rightarrow> transaction \<Rightarrow> photo_data option \<Rightarrow> string option
     \<Rightarrow> (exn + orchestration_result) \<times> world" where
  "orchestrate_transaction e w transaction_data photo_data verification_code =
     (let w = announce Transaction_Monitor w
      in case analyze_transaction e transaction_data of
           Inl x \<Rightarrow> (Inl x, w)
         | Inr monitor_result \<Rightarrow>
             (case photo_data of
                None \<Rightarrow> orchestrate_after_biometric e w transaction_data monitor_result None
              | Some photo \<Rightarrow>
                  (case verification_code of
                     None \<Rightarrow> orchestrate_after_biometric e w transaction_data monitor_result None
                   | Some code \<Rightarrow>
                       if code = [] then
                         orchestrate_after_biometric e w transaction_data monitor_result None
                       else
                         (let w = announce Deepfake_Detector w;
                              deepfake_result =
                                analyze_deepfake e transaction_data (pd_s3_path photo) code
                          in if df_is_deepfake deepfake_result
                                \<or> \<not> df_verification_passed deepfake_result
                             then (Inr \<lparr> or_status = ''BLOCKED'',
                                         or_risk_score = 100,
                                         or_reason = Some ''Deepfake authentication detected'',
                                         or_monitor_result = None,
                                         or_deepfake_result = Some deepfake_result,
                                         or_evidence = None,
                                         or_risk_assessment = None \<rparr>, w)
                             else orchestrate_after_biometric e w transaction_data monitor_result
                                    (Some deepfake_result)))))"

section \<open>The biometric verifier adapter (\<open>tools/deepfake_tools.py\<close>)\<close>

text \<open>
  \<open>round(x, 2)\<close>: the nearest multiple of 1/100, a tie going to the even neighbour. On exact
  reals this is the rounding Python applies to the decimal value of its float.
\<close>

definition round_half_even :: "real \<Rightarrow> int" where
  "round_half_even x =
     (let f = \<lfloor>x\<rfloor>; d = x - of_int f
      in if d < 1 / 2 then f
         else if d > 1 / 2 then f + 1
         else if even f then f else f + 1)"

definition py_round2 :: "real \<Rightarrow> real" where
  "py_round2 x = of_int (round_half_even (x * 100)) / 100"

text \<open>
  The raw response of the verification service. Every key is read with \<open>.get\<close>, the nested
  dictionaries with the default \<open>{}\<close>; the display-only keys (\<open>emotions\<close>, \<open>quality_metrics\<close>,
  \<open>pose\<close>) are passed through by the source and left out here.
\<close>

record face_comparison =
  fcmp_match :: "bool option"
  fcmp_similarity :: "real option"
  fcmp_confidence :: "real option"

record quality_check =
  qc_is_real :: "bool option"
  qc_confidence :: "real option"
  qc_quality_score :: "real option"

record liveness_checks =
  lc_eyes_open :: "bool option"
  lc_no_sunglasses :: "bool option"

record liveness_check =
  lv_is_live :: "bool option"
  lv_liveness_score :: "real option"
  lv_confidence :: "real option"
  lv_checks :: "liveness_checks option"

record api_response =
  ar_verification_result :: "string option"
  ar_face_comparison :: "face_comparison option"
  ar_quality_check :: "quality_check option"
  ar_liveness_check :: "liveness_check option"
  ar_reason :: "string option"

text \<open>The empty dictionary \<open>{}\<close> at each of the nested types.\<close>

definition no_face_comparison :: face_comparison where
  "no_face_comparison = \<lparr> fcmp_match = None, fcmp_similarity = None, fcmp_confidence = None \<rparr>"

definition no_quality_check :: quality_check where
  "no_quality_check = \<lparr> qc_is_real = None, qc_confidence = None, qc_quality_score = None \<rparr>"

definition no_liveness_checks :: liveness_checks where
  "no_liveness_checks = \<lparr> lc_eyes_open = None, lc_no_sunglasses = None \<rparr>"

definition no_liveness_check :: liveness_check where
  "no_liveness_check =
     \<lparr> lv_is_live = None, lv_liveness_score = None, lv_confidence = None, lv_checks = None \<rparr>"

text \<open>
  The structured analysis. A risk factor is a message of the source with the number it embeds
  (the similarity, the quality score as \<open>.get\<close> returns it).
\<close>

datatype risk_factor =
    Face_mismatch real
  | Potential_deepfake_detected
  | Liveness_check_failed
  | Low_image_quality "real option"
  | Eyes_not_visible
  | Sunglasses_detected

record face_match_analysis =
  fm_matched :: bool
  fm_similarity :: real
  fm_confidence :: real

record deepfake_detection_analysis =
  dd_is_real :: bool
  dd_confidence :: real
  dd_quality_score :: real

record liveness_analysis =
  la_is_live :: bool
  la_score :: real
  la_confidence :: real
  la_checks_passed :: liveness_checks

record verification_analysis =
  va_is_authentic :: bool
  va_verification_result :: string
  va_overall_confidence :: real
  va_face_match :: face_match_analysis
  va_deepfake_detection :: deepfake_detection_analysis
  va_liveness_check :: liveness_analysis
  va_risk_factors :: "risk_factor list"
  va_raw_reason :: string

definition parse_deepfake_result :: "api_response \<Rightarrow> verification_analysis" where
  "parse_deepfake_result api_response =
     (let verification_result = get_default (ar_verification_result api_response) ''UNKNOWN'';
          face_comparison = get_default (ar_face_comparison api_response) no_face_comparison;
          quality_check = get_default (ar_quality_check api_response) no_quality_check;
          liveness_check = get_default (ar_liveness_check api_response) no_liveness_check;
          is_authentic =
            (verification_result = ''VERIFIED''
             \<and> get_default (fcmp_match face_comparison) False
             \<and> get_default (qc_is_real quality_check) False
             \<and> get_default (lv_is_live liveness_check) False);
          confidences =
            [get_default (fcmp_confidence face_comparison) 0,
             get_default (qc_confidence quality_check) 0,
             get_default (lv_confidence liveness_check) 0];
          overall_confidence =
            (if confidences \<noteq> [] then sum_list confidences / real (length confidences) else 0);
          risk_factors = [];
          risk_factors = append_when (\<not> get_default (fcmp_match face_comparison) False)
                           (Face_mismatch (get_default (fcmp_similarity face_comparison) 0))
                           risk_factors;
          risk_factors = append_when (\<not> get_default (qc_is_real quality_check) False)
                           Potential_deepfake_detected risk_factors;
          risk_factors = append_when (\<not> get_default (lv_is_live liveness_check) False)
                           Liveness_check_failed risk_factors;
          risk_factors = append_when (get_default (qc_quality_score quality_check) 100 < 70)
                           (Low_image_quality (qc_quality_score quality_check)) risk_factors;
          checks = get_default (lv_checks liveness_check) no_liveness_checks;
          risk_factors = append_when (\<not> get_default (lc_eyes_open checks) False)
                           Eyes_not_visible risk_factors;
          risk_factors = append_when (lc_no_sunglasses checks = Some False)
                           Sunglasses_detected risk_factors
      in \<lparr> va_is_authentic = is_authentic,
           va_verification_result = verification_result,
           va_overall_confidence = py_round2 overall_confidence,
           va_face_match =
             \<lparr> fm_matched = get_default (fcmp_match face_comparison) False,
               fm_similarity = get_default (fcmp_similarity face_comparison) 0,
               fm_confidence = get_default (fcmp_confidence face_comparison) 0 \<rparr>,
           va_deepfake_detection =
             \<lparr> dd_is_real = get_default (qc_is_real quality_check) False,
               dd_confidence = get_default (qc_confidence quality_check) 0,
               dd_quality_score = get_default (qc_quality_score quality_check) 0 \<rparr>,
           va_liveness_check =
             \<lparr> la_is_live = get_default (lv_is_live liveness_check) False,
               la_score = get_default (lv_liveness_score liveness_check) 0,
               la_confidence = get_default (lv_confidence liveness_check) 0,
               la_checks_passed = checks \<rparr>,
           va_risk_factors = risk_factors,
           va_raw_reason = get_default (ar_reason api_response) [] \<rparr>)"

section \<open>The Nova agents (\<open>backend/agents\<close>)\<close>

text \<open>
  The second agent set exchanges JSON-shaped dictionaries, so its values are JSON values and
  its dictionaries association lists; \<open>d[k] = v\<close> is \<open>AList.update\<close>, \<open>d.get(k)\<close> is
  \<open>map_of\<close>.
\<close>

datatype json =
    JNull
  | JBool bool
  | JNum real
  | JStr string
  | JArr "json list"
  | JObj "(string \<times> json) list"

type_synonym dict = "(string \<times> json) list"

text \<open>Python's truth value of a JSON value, and \<open>str(e)\<close> of an exception.\<close>

fun truthy :: "json \<Rightarrow> bool" where
  "truthy JNull = False"
| "truthy (JBool b) = b"
| "truthy (JNum x) = (x \<noteq> 0)"
| "truthy (JStr s) = (s \<noteq> [])"
| "truthy (JArr xs) = (xs \<noteq> [])"
| "truthy (JObj kvs) = (kvs \<noteq> [])"

fun str_exn :: "exn \<Rightarrow> string" where
  "str_exn (RuntimeError msg) = msg"
| "str_exn JSONDecodeError = ''Expecting value''"
| "str_exn (TypeError msg) = msg"
| "str_exn (Exception msg) = msg"

record ml_result =
  ml_fraud_probability :: real
  ml_fraud_score :: int
  ml_risk_level :: string
  ml_model_confidence :: real

text \<open>
  What the two agents get from outside for the call at hand: the outcome of \<open>predict_fraud\<close>,
  the prompt texts (building the risk-assessment prompt formats nested fields and may raise),
  the Nova call (which re-raises its failures), \<open>json.loads\<close>, and the clock.
\<close>

record nova_env =
  predict_fraud :: "exn + ml_result"
  build_fraud_analysis_prompt :: "ml_result \<Rightarrow> string"
  build_risk_assessment_prompt :: "exn + string"
  call_nova :: "string \<Rightarrow> exn + string"
  json_loads :: "string \<Rightarrow> exn + json"
  nova_now_isoformat :: string

text \<open>
  The inner \<open>try\<close> of both agents: \<open>json.loads\<close>, with \<open>JSONDecodeError\<close> (and only it)
  answered by the fallback value.
\<close>

definition loads_or :: "nova_env \<Rightarrow> string \<Rightarrow> json \<Rightarrow> exn + json" where
  "loads_or nv nova_response fallback =
     (case json_loads nv nova_response of
        Inr v \<Rightarrow> Inr v
      | Inl JSONDecodeError \<Rightarrow> Inr fallback
      | Inl x \<Rightarrow> Inl x)"

text \<open>
  \<open>assessment[k] = v\<close>: item assignment with a string key works on a dictionary only; on any
  other JSON value it raises \<open>TypeError\<close>.
\<close>

definition set_item :: "json \<Rightarrow> string \<Rightarrow> json \<Rightarrow> exn + json" where
  "set_item target k v =
     (case target of
        JObj d \<Rightarrow> Inr (JObj (AList.update k v d))
      | _ \<Rightarrow> Inl (TypeError ''object does not support item assignment''))"

definition biometric_verification_analyzed :: "dict option \<Rightarrow> bool" where
  "biometric_verification_analyzed deepfake_result =
     (case deepfake_result of
        None \<Rightarrow> False
      | Some d \<Rightarrow> \<not> (case map_of d ''error'' of None \<Rightarrow> False | Some v \<Rightarrow> truthy v))"

text \<open>
  \<open>assess_risk\<close> of \<open>agents/risk_assessor.py\<close> (named \<open>nova_assess_risk\<close> here, the name
  \<open>assess_risk\<close> being taken by the function of \<open>app/agents\<close>). The transaction, the fraud
  result and the evidence only feed the prompt. The body of the outer \<open>try\<close> is
  \<open>nova_assess_risk_body\<close>; the outer \<open>except\<close> answers every exception with the error
  assessment.
\<close>

definition parse_fallback_assessment :: "string \<Rightarrow> json" where
  "parse_fallback_assessment nova_response =
     JObj [(''final_verdict'', JStr ''REVIEW''),
           (''confidence_score'', JNum 50),
           (''risk_level'', JStr ''MEDIUM''),
           (''risk_summary'', JStr ''Unable to parse comprehensive assessment''),
           (''key_findings'', JArr [JStr ''System error in risk assessment'']),
           (''decision_reasoning'', JStr (take 500 nova_response)),
           (''recommended_action'', JStr ''Manual review required'')]"

definition error_assessment :: "nova_env \<Rightarrow> exn \<Rightarrow> dict" where
  "error_assessment nv e =
     [(''final_verdict'', JStr ''REVIEW''),
      (''confidence_score'', JNum 0),
      (''risk_level'', JStr ''UNKNOWN''),
      (''risk_summary'', JStr (''Error during assessment: '' @ str_exn e)),
      (''key_findings'', JArr [JStr ''System error'']),
      (''decision_reasoning'', JStr ''Unable to complete risk assessment due to system error''),
      (''recommended_action'', JStr ''Manual review required''),
      (''agent'', JStr ''risk_assessor''),
      (''timestamp'', JStr (nova_now_isoformat nv)),
      (''error'', JStr (str_exn e))]"

definition nova_assess_risk_body :: "nova_env \<Rightarrow> dict option \<Rightarrow> exn + json" where
  "nova_assess_risk_body nv deepfake_result =
     (case build_risk_assessment_prompt nv of
        Inl x \<Rightarrow> Inl x
      | Inr prompt \<Rightarrow>
     (case call_nova nv prompt of
        Inl x \<Rightarrow> Inl x
      | Inr nova_response \<Rightarrow>
     (case loads_or nv nova_response (parse_fallback_assessment nova_response) of
        Inl x \<Rightarrow> Inl x
      | Inr assessment \<Rightarrow>
     (case set_item assessment ''agent'' (JStr ''risk_assessor'') of
        Inl x \<Rightarrow> Inl x
      | Inr assessment \<Rightarrow>
     (case set_item assessment ''timestamp'' (JStr (nova_now_isoformat nv)) of
        Inl x \<Rightarrow> Inl x
      | Inr assessment \<Rightarrow>
          set_item assessment ''agents_analyzed''
            (JObj [(''fraud_detection'', JBool True),
                   (''evidence_collection'', JBool True),
                   (''biometric_verification'',
                    JBool (biometric_verification_analyzed deepfake_result))]))))))"

definition nova_assess_risk :: "nova_env \<Rightarrow> dict option \<Rightarrow> exn + json" where
  "nova_assess_risk nv deepfake_result =
     (case nova_assess_risk_body nv deepfake_result of
        Inr assessment \<Rightarrow> Inr assessment
      | Inl e \<Rightarrow> Inr (JObj (error_assessment nv e)))"

text \<open>\<open>d.get(k)\<close> on the value an agent returned.\<close>

definition json_get :: "json \<Rightarrow> string \<Rightarrow> json option" where
  "json_get v k = (case v of JObj d \<Rightarrow> map_of d k | _ \<Rightarrow> None)"

text \<open>
  \<open>analyze_transaction\<close> of \<open>agents/transaction_monitor.py\<close> (named
  \<open>nova_analyze_transaction\<close> here). Its outer \<open>except\<close> re-raises. \<open>nova_analysis.get\<close>
  raises \<open>AttributeError\<close> (an \<open>Exception\<close> here) on a parsed value that is no dictionary.
\<close>

record fraud_analysis =
  fa_transaction_id :: "string option"
  fa_timestamp :: string
  fa_ml_prediction :: ml_result
  fa_nova_analysis :: json
  fa_final_verdict :: json
  fa_final_score :: int

definition nova_analyze_transaction :: "nova_env \<Rightarrow> string option \<Rightarrow> exn + fraud_analysis" where
  "nova_analyze_transaction nv transaction_id =
     (case predict_fraud nv of
        Inl x \<Rightarrow> Inl x
      | Inr ml_result \<Rightarrow>
     (case call_nova nv (build_fraud_analysis_prompt nv ml_result) of
        Inl x \<Rightarrow> Inl x
      | Inr nova_response \<Rightarrow>
     (case loads_or nv nova_response
             (JObj [(''verdict'', JStr ''REVIEW''),
                    (''risk_factors'', JArr [JStr ''Unable to parse Nova response'']),
                    (''recommended_action'', JStr ''Manual review required''),
                    (''reasoning'', JStr nova_response)]) of
        Inl x \<Rightarrow> Inl x
      | Inr nova_analysis \<Rightarrow>
          (case nova_analysis of
             JObj d \<Rightarrow>
               Inr \<lparr> fa_transaction_id = transaction_id,
                      fa_timestamp = nova_now_isoformat nv,
                      fa_ml_prediction = ml_result,
                      fa_nova_analysis = nova_analysis,
                      fa_final_verdict = get_default (map_of d ''verdict'') (JStr ''REVIEW''),
                      fa_final_score = ml_fraud_score ml_result \<rparr>
           | _ \<Rightarrow> Inl (Exception ''object has no attribute get'')))))"

section \<open>Conditions named by the specification\<close>

text \<open>
  The five rules of the Suspicion Gate as conditions on its inputs: the transaction, the
  classifier's probability, the baseline the profile store holds for the transaction's user,
  and the hour the clock shows.
\<close>

definition high_value_deviation :: "world \<Rightarrow> transaction \<Rightarrow> bool" where
  "high_value_deviation w txn =
     (get_default (tx_transaction_amount txn) 0
        > get_default (up_avg_transaction_amount (get_user_baseline w (tx_user_id txn))) 1000 * 5
      \<and> get_default (tx_transaction_amount txn) 0 > 5000)"

definition ml_high_risk :: "real \<Rightarrow> bool" where
  "ml_high_risk fraud_probability = (fraud_probability > 0.60)"

definition new_device_high_amount :: "world \<Rightarrow> transaction \<Rightarrow> bool" where
  "new_device_high_amount w txn =
     (get_default (tx_device_type txn) ''Desktop''
        \<notin> set (get_default (up_known_devices (get_user_baseline w (tx_user_id txn))) [])
      \<and> get_default (tx_transaction_amount txn) 0 > 3000)"

definition unusual_hour :: "env \<Rightarrow> transaction \<Rightarrow> bool" where
  "unusual_hour e txn =
     ((2 \<le> now_hour e \<and> now_hour e \<le> 6) \<and> get_default (tx_transaction_amount txn) 0 > 2000)"

definition geographic_anomaly :: "transaction \<Rightarrow> bool" where
  "geographic_anomaly txn =
     (get_default (tx_transaction_distance txn) 0 > 500
      \<and> get_default (tx_transaction_amount txn) 0 > 3000)"

text \<open>The conditions of the adjustment table, read off the inputs of \<open>assess_risk\<close>.\<close>

definition amount_anomaly_present :: "evidence \<Rightarrow> bool" where
  "amount_anomaly_present ev = list_ex (py_in_str ''higher than normal'') (ev_detected_patterns ev)"

definition velocity_anomaly_present :: "evidence \<Rightarrow> bool" where
  "velocity_anomaly_present ev = list_ex (py_in_str ''High velocity'') (ev_detected_patterns ev)"

definition new_device_present :: "evidence \<Rightarrow> bool" where
  "new_device_present ev = list_ex (py_in_str ''New device'') (ev_detected_patterns ev)"

text \<open>
  The adjustment table of the specification read literally: every row whose condition holds
  contributes its delta, the verification rows included. Used only for comparison with
  \<open>assess_risk\<close>.
\<close>

definition spec_independent_adjustment_total :: "deepfake_result option \<Rightarrow> evidence \<Rightarrow> int" where
  "spec_independent_adjustment_total deepfake_result ev =
     (case deepfake_result of
        None \<Rightarrow> 0
      | Some d \<Rightarrow> (if df_is_deepfake d then 40 else 0)
                 + (if df_face_match_score d < 0.80 then 20 else 0)
                 + (if \<not> df_code_validated d then 15 else 0))
     + (if amount_anomaly_present ev then 15 else 0)
     + (if velocity_anomaly_present ev then 10 else 0)
     + (if new_device_present ev then 10 else 0)"

text \<open>
  The case identifier \<open>handle_escalation\<close> generates in an environment, and the risk assessment
  a run of the orchestrator ends with (\<open>None\<close> for a run that raised or blocked immediately).
\<close>

definition case_id_of :: "env \<Rightarrow> string" where
  "case_id_of e = ''FA-'' @ today_yyyymmdd e @ ''-'' @ str_nat (random_case_suffix e)"

definition final_risk_assessment ::
  "(exn + orchestration_result) \<times> world \<Rightarrow> risk_assessment option" where
  "final_risk_assessment run = (case fst run of Inl x \<Rightarrow> None | Inr r \<Rightarrow> or_risk_assessment r)"

text \<open>
  The four conditions of overall authenticity and the three sub-check confidences, read off
  the raw response: an absent sub-field fails its condition and counts as confidence 0.
\<close>

definition status_verified :: "api_response \<Rightarrow> bool" where
  "status_verified r = (ar_verification_result r = Some ''VERIFIED'')"

definition face_match_passed :: "api_response \<Rightarrow> bool" where
  "face_match_passed r =
     (case ar_face_comparison r of None \<Rightarrow> False | Some f \<Rightarrow> fcmp_match f = Some True)"

definition is_real_passed :: "api_response \<Rightarrow> bool" where
  "is_real_passed r =
     (case ar_quality_check r of None \<Rightarrow> False | Some q \<Rightarrow> qc_is_real q = Some True)"

definition is_live_passed :: "api_response \<Rightarrow> bool" where
  "is_live_passed r =
     (case ar_liveness_check r of None \<Rightarrow> False | Some l \<Rightarrow> lv_is_live l = Some True)"

definition face_confidence :: "api_response \<Rightarrow> real" where
  "face_confidence r =
     (case ar_face_comparison r of None \<Rightarrow> 0
      | Some f \<Rightarrow> (case fcmp_confidence f of None \<Rightarrow> 0 | Some c \<Rightarrow> c))"

definition quality_confidence :: "api_response \<Rightarrow> real" where
  "quality_confidence r =
     (case ar_quality_check r of None \<Rightarrow> 0
      | Some q \<Rightarrow> (case qc_confidence q of None \<Rightarrow> 0 | Some c \<Rightarrow> c))"

definition liveness_confidence :: "api_response \<Rightarrow> real" where
  "liveness_confidence r =
     (case ar_liveness_check r of None \<Rightarrow> 0
      | Some l \<Rightarrow> (case lv_confidence l of None \<Rightarrow> 0 | Some c \<Rightarrow> c))"

definition mean_confidence :: "api_response \<Rightarrow> real" where
  "mean_confidence r = (face_confidence r + quality_confidence r + liveness_confidence r) / 3"

section \<open>Concrete inputs used in the examples\<close>

definition default_profile :: "string option \<Rightarrow> user_profile" where
  "default_profile user_id =
     \<lparr> up_user_id = user_id,
       up_avg_transaction_amount = Some 1000,
       up_known_devices = Some [''Desktop'', ''Mobile''],
       up_account_age_days = Some 365,
       up_total_transactions = Some 150 \<rparr>"

definition example_monitor :: "int \<Rightarrow> monitor_result" where
  "example_monitor score =
     \<lparr> mr_fraud_probability = real_of_int score / 100,
       mr_risk_score = score,
       mr_llm_explanation = ''explanation'',
       mr_recommendation = (if score \<ge> 85 then ''BLOCK'' else if score \<ge> 60 then ''REVIEW'' else ''APPROVE''),
       mr_agent = ''transaction_monitor'' \<rparr>"

definition example_evidence :: "string list \<Rightarrow> evidence" where
  "example_evidence patterns =
     \<lparr> ev_user_profile = default_profile (Some ''u1''),
       ev_transaction_history_count = 2,
       ev_recent_24h_count = 2,
       ev_timeline = [],
       ev_detected_patterns = patterns,
       ev_llm_summary = ''summary'',
       ev_agent = ''evidence_collector'' \<rparr>"

text \<open>A biometric result in which all three verification conditions hold at once.\<close>

definition failed_deepfake :: deepfake_result where
  "failed_deepfake =
     \<lparr> df_is_deepfake = True,
       df_deepfake_confidence = 0.97,
       df_face_match_score = 0.5,
       df_code_validated = False,
       df_verification_passed = False,
       df_llm_explanation = ''explanation'',
       df_agent = ''deepfake_detector'' \<rparr>"

definition empty_world :: world where
  "empty_world = \<lparr> MOCK_USER_PROFILES = Map.empty, MOCK_FRAUD_CASES = Map.empty, agent_log = [] \<rparr>"

text \<open>The two history entries of the mock store, five and two hours before the clock reading.\<close>

definition mock_history :: "history_txn list" where
  "mock_history =
     [\<lparr> ht_transaction_id = Some ''TXN_001'', ht_timestamp = Some ''2026-11-04T07:00:00'',
         ht_transaction_amount = Some 850, ht_merchant_category = Some ''Retail'' \<rparr>,
      \<lparr> ht_transaction_id = Some ''TXN_002'', ht_timestamp = Some ''2026-11-04T10:00:00'',
         ht_transaction_amount = Some 1200, ht_merchant_category = Some ''Food'' \<rparr>]"

text \<open>
  An environment with the clock at the given hour, a loaded classifier that answers with the
  given probability, and a verification endpoint that answers with the given response.
\<close>

definition example_env :: "nat \<Rightarrow> real \<Rightarrow> detection_result \<Rightarrow> env" where
  "example_env hour probability detection =
     \<lparr> MODEL = Some (\<lambda>features. Inr probability),
       prepared_features = (\<lambda>t. Inr []),
       now_hour = hour,
       now_epoch = 43200,
       now_isoformat = ''2026-11-04T12:00:00'',
       today_yyyymmdd = ''20261104'',
       random_case_suffix = 4711,
       invoke_sagemaker_endpoint = (\<lambda>i. detection),
       get_user_transaction_history = (\<lambda>u. mock_history),
       fromisoformat = map_of [(''2026-11-04T07:00:00'', 25200), (''2026-11-04T10:00:00'', 36000)],
       format_money = (\<lambda>x. ''0.00''),
       claude_monitor = ''monitor text'',
       claude_deepfake = ''biometric text'',
       claude_evidence = ''evidence text'',
       claude_risk = ''risk text'',
       claude_report = ''report text'' \<rparr>"

definition genuine_detection :: detection_result where
  "genuine_detection =
     \<lparr> dr_is_deepfake = Some False, dr_deepfake_confidence = Some 0.12,
       dr_face_match_score = Some 0.95, dr_code_validated = Some True \<rparr>"

definition deepfake_detection :: detection_result where
  "deepfake_detection =
     \<lparr> dr_is_deepfake = Some True, dr_deepfake_confidence = Some 0.97,
       dr_face_match_score = Some 0.5, dr_code_validated = Some False \<rparr>"

definition example_transaction :: "real \<Rightarrow> string \<Rightarrow> transaction" where
  "example_transaction amount device =
     \<lparr> tx_transaction_id = Some ''TXN_12345'',
       tx_user_id = Some ''u1'',
       tx_transaction_amount = Some amount,
       tx_transaction_type = Some ''Online'',
       tx_merchant_category = Some ''Retail'',
       tx_device_type = Some device,
       tx_location = Some ''Unknown'',
       tx_transaction_distance = None \<rparr>"

definition example_photo :: photo_data where
  "example_photo = \<lparr> pd_s3_path = ''s3://mock-bucket/uploads/TXN_12345_me.jpg'', pd_filename = ''me.jpg'' \<rparr>"

definition three_patterns :: "string list" where
  "three_patterns =
     [''Amount 9x higher than normal'', ''High velocity: 12 transactions in 24h'',
      ''New device detected'']"

text \<open>An environment whose loaded classifier raises on every feature row.\<close>

definition failing_model_env :: env where
  "failing_model_env =
     (example_env 12 0.1 genuine_detection)
       \<lparr>MODEL := Some (\<lambda>features. Inl (Exception ''inference failed''))\<rparr>"

text \<open>
  A verified response whose sub-checks all pass, with the given three confidences (\<open>None\<close> for
  a confidence the service did not report), and a response with no sub-field at all.
\<close>

definition verified_response :: "real option \<Rightarrow> real option \<Rightarrow> real option \<Rightarrow> api_response" where
  "verified_response c1 c2 c3 =
     \<lparr> ar_verification_result = Some ''VERIFIED'',
       ar_face_comparison =
         Some \<lparr> fcmp_match = Some True, fcmp_similarity = Some 97, fcmp_confidence = c1 \<rparr>,
       ar_quality_check =
         Some \<lparr> qc_is_real = Some True, qc_confidence = c2, qc_quality_score = Some 90 \<rparr>,
       ar_liveness_check =
         Some \<lparr> lv_is_live = Some True, lv_liveness_score = Some 95, lv_confidence = c3,
                lv_checks = Some \<lparr> lc_eyes_open = Some True, lc_no_sunglasses = Some True \<rparr> \<rparr>,
       ar_reason = Some ''ok'' \<rparr>"

definition bare_response :: api_response where
  "bare_response =
     \<lparr> ar_verification_result = Some ''VERIFIED'', ar_face_comparison = None,
       ar_quality_check = None, ar_liveness_check = None, ar_reason = None \<rparr>"

text \<open>
  A Nova environment whose text-generation call answers with the given text, and whose
  \<open>json.loads\<close> accepts the text \<open>[1]\<close> and rejects everything else.
\<close>

definition example_nova_env :: "string \<Rightarrow> nova_env" where
  "example_nova_env response =
     \<lparr> predict_fraud = Inr \<lparr> ml_fraud_probability = 0.42, ml_fraud_score = 42,
                              ml_risk_level = ''MEDIUM'', ml_model_confidence = 0.58 \<rparr>,
       build_fraud_analysis_prompt = (\<lambda>ml. ''fraud prompt''),
       build_risk_assessment_prompt = Inr ''risk prompt'',
       call_nova = (\<lambda>prompt. Inr response),
       json_loads = (\<lambda>s. if s = ''[1]'' then Inr (JArr [JNum 1]) else Inl JSONDecodeError),
       nova_now_isoformat = ''2026-11-04T12:00:00'' \<rparr>"

section \<open>Properties of the risk assessor\<close>

lemma py_in_str_eval:
  "py_in_str [] p = True"
  "py_in_str (c # s) [] = False"
  "py_in_str (c # s) (a # p) = (prefix (c # s) (a # p) \<or> py_in_str (c # s) p)"
  by (simp_all add: py_in_str_def sublist_Cons_right)

lemma assess_risk_adjustments_nonneg:
  "0 \<le> sum_list (map snd (ra_adjustments (assess_risk llm m d ev)))"
  by (simp add: assess_risk_def Let_def append_when_def split: option.splits)

lemma assess_risk_score_eq:
  "ra_risk_score (assess_risk llm m d ev) =
     composite_risk_score (mr_risk_score m) (ra_adjustments (assess_risk llm m d ev))"
  by (simp add: assess_risk_def Let_def)

text \<open>
  C2. For a base score in [0,100] the composite score returned by \<open>assess_risk\<close> is the base
  score plus the sum of the deltas of the adjustments it applied, capped at 100, and it lies
  in [0,100]; with base 90 and adjustments +40, +20, +15 the capped formula gives 100, not 165.
\<close>

theorem assess_risk_composite_clamped:
  assumes "0 \<le> mr_risk_score m" and "mr_risk_score m \<le> 100"
  shows "ra_risk_score (assess_risk llm m d ev) =
           min (mr_risk_score m + sum_list (map snd (ra_adjustments (assess_risk llm m d ev)))) 100
         \<and> 0 \<le> ra_risk_score (assess_risk llm m d ev)
         \<and> ra_risk_score (assess_risk llm m d ev) \<le> 100
         \<and> composite_risk_score 90
              [(''Deepfake detected'', 40), (''Low face match'', 20), (''Code validation failed'', 15)]
            = 100"
proof -
  let ?r = "assess_risk llm m d ev"
  have eq: "ra_risk_score ?r = min (mr_risk_score m + sum_list (map snd (ra_adjustments ?r))) 100"
    by (simp add: assess_risk_score_eq composite_risk_score_def)
  have nn: "0 \<le> sum_list (map snd (ra_adjustments ?r))"
    by (rule assess_risk_adjustments_nonneg)
  have lo: "0 \<le> ra_risk_score ?r"
    using eq nn assms(1) by linarith
  have hi: "ra_risk_score ?r \<le> 100"
    using eq by linarith
  have ex: "composite_risk_score 90
              [(''Deepfake detected'', 40), (''Low face match'', 20), (''Code validation failed'', 15)]
            = 100"
    by (simp add: composite_risk_score_def)
  from eq lo hi ex show ?thesis by blast
qed

theorem assess_risk_composite_clamped_witness:
  "0 \<le> mr_risk_score (example_monitor 90) \<and> mr_risk_score (example_monitor 90) \<le> 100
   \<and> sum_list (map snd (ra_adjustments
         (assess_risk ''r'' (example_monitor 90) (Some failed_deepfake) (example_evidence three_patterns))))
       = 75
   \<and> ra_risk_score
         (assess_risk ''r'' (example_monitor 90) (Some failed_deepfake) (example_evidence three_patterns))
       = 100"
proof -
  have lo: "0 \<le> mr_risk_score (example_monitor 90)"
    by (simp add: example_monitor_def)
  have hi: "mr_risk_score (example_monitor 90) \<le> 100"
    by (simp add: example_monitor_def)
  have base: "mr_risk_score (example_monitor 90) = 90"
    by (simp add: example_monitor_def)
  have adj: "ra_adjustments
       (assess_risk ''r'' (example_monitor 90) (Some failed_deepfake) (example_evidence three_patterns))
     = [(''Deepfake detected'', 40), (''Amount anomaly'', 15), (''Velocity spike'', 10),
        (''New device'', 10)]"
    by (simp add: assess_risk_def failed_deepfake_def example_evidence_def three_patterns_def
          py_in_str_eval Let_def append_when_def)
  from assess_risk_composite_clamped [OF lo hi, of "''r''" "Some failed_deepfake"
      "example_evidence three_patterns"]
  show ?thesis using lo hi by (simp add: adj base)
qed

text \<open>
  C3, as stated, fails: the three verification rows are an \<open>if/elif/elif\<close> chain. With a
  biometric result that is a deepfake, has a face match below 0.80 and a failed code check, only
  the +40 row is applied, where independent evaluation of the table would give 40 + 20 + 15.
\<close>

theorem assess_risk_verification_rows_not_independent:
  "df_is_deepfake failed_deepfake \<and> df_face_match_score failed_deepfake < 0.80
   \<and> \<not> df_code_validated failed_deepfake
   \<and> ra_adjustments (assess_risk ''r'' (example_monitor 10) (Some failed_deepfake) (example_evidence []))
       = [(''Deepfake detected'', 40)]
   \<and> spec_independent_adjustment_total (Some failed_deepfake) (example_evidence []) = 75"
  by (simp add: assess_risk_def failed_deepfake_def example_evidence_def Let_def append_when_def
        spec_independent_adjustment_total_def amount_anomaly_present_def
        velocity_anomaly_present_def new_device_present_def)

text \<open>
  C3, amended. The verification rows form a priority chain of which at most one contributes
  (+40 if a deepfake is detected; otherwise +20 if the face match is below 0.80; otherwise +15
  if the code check failed), while the three evidence rows (amount anomaly +15, velocity
  anomaly +10, new device +10) are each evaluated independently; the adjustment list is these
  contributions in table order and the adjustment total is their sum.
\<close>

theorem assess_risk_adjustment_table:
  "ra_adjustments (assess_risk llm m d ev) =
     (case d of
        None \<Rightarrow> []
      | Some v \<Rightarrow>
          if df_is_deepfake v then [(''Deepfake detected'', 40)]
          else if df_face_match_score v < 0.80 then [(''Low face match'', 20)]
          else if \<not> df_code_validated v then [(''Code validation failed'', 15)]
          else [])
     @ (if amount_anomaly_present ev then [(''Amount anomaly'', 15)] else [])
     @ (if velocity_anomaly_present ev then [(''Velocity spike'', 10)] else [])
     @ (if new_device_present ev then [(''New device'', 10)] else [])
   \<and> sum_list (map snd (ra_adjustments (assess_risk llm m d ev))) =
     (case d of
        None \<Rightarrow> 0
      | Some v \<Rightarrow>
          if df_is_deepfake v then 40
          else if df_face_match_score v < 0.80 then 20
          else if \<not> df_code_validated v then 15
          else 0)
     + (if amount_anomaly_present ev then 15 else 0)
     + (if velocity_anomaly_present ev then 10 else 0)
     + (if new_device_present ev then 10 else 0)"
  by (simp add: assess_risk_def Let_def append_when_def amount_anomaly_present_def
        velocity_anomaly_present_def new_device_present_def split: option.splits)

theorem assess_risk_adjustment_table_witness:
  "ra_adjustments
     (assess_risk ''r'' (example_monitor 10) (Some failed_deepfake) (example_evidence three_patterns))
   = [(''Deepfake detected'', 40), (''Amount anomaly'', 15), (''Velocity spike'', 10),
      (''New device'', 10)]"
  using assess_risk_adjustment_table [of "''r''" "example_monitor 10" "Some failed_deepfake"
      "example_evidence three_patterns"]
  by (simp add: failed_deepfake_def example_evidence_def three_patterns_def py_in_str_eval
        amount_anomaly_present_def velocity_anomaly_present_def new_device_present_def)

section \<open>Properties of the Suspicion Gate\<close>

lemma append_when_eq: "append_when c a xs = xs @ (if c then [a] else [])"
  by (simp add: append_when_def)

lemma nonempty_if_append: "(0 < length ((if c then [a] else []) @ ys)) = (c \<or> 0 < length ys)"
  by simp

lemma nonempty_if: "(0 < length (if c then [a] else [])) = c"
  by simp

lemma calculate_suspicious_flag_reasons:
  "fst (calculate_suspicious_flag e w txn p) =
     (high_value_deviation w txn \<or> ml_high_risk p \<or> new_device_high_amount w txn
        \<or> unusual_hour e txn \<or> geographic_anomaly txn,
      (if high_value_deviation w txn then [''high_value_deviation''] else [])
      @ (if ml_high_risk p then [''ml_high_risk''] else [])
      @ (if new_device_high_amount w txn then [''new_device_high_amount''] else [])
      @ (if unusual_hour e txn then [''unusual_hour''] else [])
      @ (if geographic_anomaly txn then [''geographic_anomaly''] else []))"
  unfolding calculate_suspicious_flag_def Let_def high_value_deviation_def ml_high_risk_def
        new_device_high_amount_def unusual_hour_def geographic_anomaly_def
  by (simp only: append_when_eq append_Nil append_assoc fst_conv nonempty_if_append nonempty_if)

lemmas gate_eval = get_user_baseline_def get_user_profile_def get_default_def
  example_env_def example_transaction_def empty_world_def

text \<open>
  C4. The Suspicion Gate requires verification exactly when at least one of the five rules
  fires, and returns the reason codes of the rules that fire in the fixed rule order; with a
  probability of at most 0.60 and no other rule firing it answers \<open>(False, [])\<close>.
\<close>

theorem calculate_suspicious_flag_rules:
  "fst (calculate_suspicious_flag e w txn p) =
     (high_value_deviation w txn \<or> ml_high_risk p \<or> new_device_high_amount w txn
        \<or> unusual_hour e txn \<or> geographic_anomaly txn,
      (if high_value_deviation w txn then [''high_value_deviation''] else [])
      @ (if ml_high_risk p then [''ml_high_risk''] else [])
      @ (if new_device_high_amount w txn then [''new_device_high_amount''] else [])
      @ (if unusual_hour e txn then [''unusual_hour''] else [])
      @ (if geographic_anomaly txn then [''geographic_anomaly''] else []))
   \<and> (p \<le> 0.60 \<and> \<not> high_value_deviation w txn \<and> \<not> new_device_high_amount w txn
        \<and> \<not> unusual_hour e txn \<and> \<not> geographic_anomaly txn
      \<longrightarrow> fst (calculate_suspicious_flag e w txn p) = (False, []))"
proof -
  have quiet: "fst (calculate_suspicious_flag e w txn p) = (False, [])"
    if "p \<le> 0.60" "\<not> high_value_deviation w txn" "\<not> new_device_high_amount w txn"
       "\<not> unusual_hour e txn" "\<not> geographic_anomaly txn"
  proof -
    from that(1) have "\<not> ml_high_risk p" by (simp add: ml_high_risk_def)
    with that show ?thesis
      by (simp only: calculate_suspicious_flag_reasons if_False append_Nil simp_thms)
  qed
  from calculate_suspicious_flag_reasons quiet show ?thesis by blast
qed

text \<open>
  Scenario B (amount 9000 against a baseline average of 1000) and a quiet transaction
  (amount 200, probability 0.1, known device, midday).
\<close>

theorem calculate_suspicious_flag_rules_witness:
  "fst (calculate_suspicious_flag (example_env 12 0.1 genuine_detection) empty_world
          (example_transaction 9000 ''Desktop'') 0.1) = (True, [''high_value_deviation''])
   \<and> fst (calculate_suspicious_flag (example_env 12 0.1 genuine_detection) empty_world
          (example_transaction 200 ''Desktop'') 0.1) = (False, [])"
  using calculate_suspicious_flag_rules [of "example_env 12 0.1 genuine_detection" empty_world
      "example_transaction 9000 ''Desktop''" "0.1"]
    calculate_suspicious_flag_rules [of "example_env 12 0.1 genuine_detection" empty_world
      "example_transaction 200 ''Desktop''" "0.1"]
  by (simp add: high_value_deviation_def ml_high_risk_def
        new_device_high_amount_def unusual_hour_def geographic_anomaly_def gate_eval)

text \<open>
  C8, as stated, fails: the gate reads the hour from the clock. The same transaction (amount
  2500, known device), the same probability 0.1 and the same baseline give
  \<open>(True, [unusual_hour])\<close> at 3 o'clock and \<open>(False, [])\<close> at 12 o'clock.
\<close>

theorem calculate_suspicious_flag_depends_on_clock:
  "fst (calculate_suspicious_flag (example_env 3 0.1 genuine_detection) empty_world
          (example_transaction 2500 ''Desktop'') 0.1) = (True, [''unusual_hour''])
   \<and> fst (calculate_suspicious_flag (example_env 12 0.1 genuine_detection) empty_world
          (example_transaction 2500 ''Desktop'') 0.1) = (False, [])"
  by (simp add: calculate_suspicious_flag_def Let_def gate_eval append_when_def)

text \<open>
  C8, amended. Two invocations of the gate with the same transaction, the same probability,
  the same baseline for the transaction's user and the same hour on the clock return the same
  pair, whatever else differs between the two environments and states; and an invocation
  leaves the state as it found it.
\<close>

theorem calculate_suspicious_flag_deterministic:
  assumes "now_hour e1 = now_hour e2"
      and "get_user_baseline w1 (tx_user_id txn) = get_user_baseline w2 (tx_user_id txn)"
  shows "fst (calculate_suspicious_flag e1 w1 txn p) = fst (calculate_suspicious_flag e2 w2 txn p)
         \<and> snd (calculate_suspicious_flag e1 w1 txn p) = w1
         \<and> snd (calculate_suspicious_flag e2 w2 txn p) = w2"
  using assms by (simp add: calculate_suspicious_flag_def Let_def)

theorem calculate_suspicious_flag_deterministic_witness:
  "now_hour (example_env 3 0.1 genuine_detection) = now_hour (example_env 3 0.9 deepfake_detection)
   \<and> fst (calculate_suspicious_flag (example_env 3 0.1 genuine_detection) empty_world
            (example_transaction 2500 ''Desktop'') 0.1)
     = fst (calculate_suspicious_flag (example_env 3 0.9 deepfake_detection) empty_world
            (example_transaction 2500 ''Desktop'') 0.1)
   \<and> snd (calculate_suspicious_flag (example_env 3 0.1 genuine_detection) empty_world
            (example_transaction 2500 ''Desktop'') 0.1) = empty_world"
proof -
  have h: "now_hour (example_env 3 0.1 genuine_detection)
           = now_hour (example_env 3 0.9 deepfake_detection)"
    by (simp add: example_env_def)
  from calculate_suspicious_flag_deterministic
         [OF h refl, of empty_world "example_transaction 2500 ''Desktop''" "0.1"]
  show ?thesis using h by simp
qed

section \<open>Properties of the orchestrator\<close>

lemma collect_evidence_announce:
  "collect_evidence e (announce a w) txn = collect_evidence e w txn"
  by (simp add: collect_evidence_def announce_def get_user_profile_def)

lemma analyze_transaction_example:
  "analyze_transaction (example_env h (real_of_int s / 100) det) txn
   = Inr \<lparr> mr_fraud_probability = real_of_int s / 100,
           mr_risk_score = s,
           mr_llm_explanation = ''monitor text'',
           mr_recommendation = (if s \<ge> 85 then ''BLOCK'' else if s \<ge> 60 then ''REVIEW''
                                else ''APPROVE''),
           mr_agent = ''transaction_monitor'' \<rparr>"
  by (simp add: analyze_transaction_def predict_fraud_probability_def example_env_def py_int_def
        Let_def)

text \<open>
  C1. When a photo and a non-empty verification code are given and the biometric check
  reports a deepfake or a verification that did not pass, \<open>orchestrate_transaction\<close> returns
  status BLOCKED with risk score 100; the run has invoked the transaction monitor and the
  deepfake detector and nothing else (no evidence collection, no risk synthesis, no
  escalation), the result carries neither evidence nor a risk assessment, and the stores are
  as before.
\<close>

theorem biometric_failure_blocks:
  assumes "analyze_transaction e txn = Inr m"
      and "code \<noteq> []"
      and "df_is_deepfake (analyze_deepfake e txn (pd_s3_path photo) code)
           \<or> \<not> df_verification_passed (analyze_deepfake e txn (pd_s3_path photo) code)"
  shows "\<exists>r. orchestrate_transaction e w txn (Some photo) (Some code)
               = (Inr r, w\<lparr>agent_log := agent_log w @ [Transaction_Monitor, Deepfake_Detector]\<rparr>)
             \<and> or_status r = ''BLOCKED'' \<and> or_risk_score r = 100
             \<and> or_evidence r = None \<and> or_risk_assessment r = None"
  using assms by (auto simp add: orchestrate_transaction_def Let_def announce_def)

theorem biometric_failure_blocks_witness:
  "\<exists>r. orchestrate_transaction (example_env 12 (real_of_int 10 / 100) deepfake_detection) empty_world
          (example_transaction 9000 ''Tablet'') (Some example_photo) (Some ''123456'')
        = (Inr r, empty_world\<lparr>agent_log := [Transaction_Monitor, Deepfake_Detector]\<rparr>)
      \<and> or_status r = ''BLOCKED'' \<and> or_risk_score r = 100
      \<and> or_evidence r = None \<and> or_risk_assessment r = None"
proof -
  let ?e = "example_env 12 (real_of_int 10 / 100) deepfake_detection"
  let ?t = "example_transaction 9000 ''Tablet''"
  note h1 = analyze_transaction_example [of 12 10 deepfake_detection ?t]
  have h2: "''123456'' \<noteq> []" by simp
  have h3: "df_is_deepfake (analyze_deepfake ?e ?t (pd_s3_path example_photo) ''123456'')
            \<or> \<not> df_verification_passed (analyze_deepfake ?e ?t (pd_s3_path example_photo) ''123456'')"
    by (simp add: analyze_deepfake_def example_env_def deepfake_detection_def get_default_def Let_def)
  from biometric_failure_blocks [OF h1 h2 h3, of empty_world]
  show ?thesis by (simp add: empty_world_def)
qed

section \<open>Properties of the classifier adapter\<close>

lemma assess_risk_status_not_approved:
  "50 \<le> mr_risk_score m \<Longrightarrow> ra_status (assess_risk llm m d ev) \<noteq> ''APPROVED''"
proof -
  assume b: "50 \<le> mr_risk_score m"
  let ?r = "assess_risk llm m d ev"
  have "ra_risk_score ?r = min (mr_risk_score m + sum_list (map snd (ra_adjustments ?r))) 100"
    by (simp add: assess_risk_score_eq composite_risk_score_def)
  with assess_risk_adjustments_nonneg [of llm m d ev] b have ge: "50 \<le> ra_risk_score ?r"
    by linarith
  have "ra_status ?r = (if ra_risk_score ?r \<ge> 85 then ''BLOCKED''
                    else if ra_risk_score ?r \<ge> 70 then ''REVIEW''
                    else if ra_risk_score ?r \<ge> 50 then ''REVIEW''
                    else ''APPROVED'')"
    by (simp add: assess_risk_def Let_def)
  with ge show ?thesis by simp
qed

lemma assess_risk_no_adjustments:
  "ra_adjustments (assess_risk llm m d ev) = [] \<Longrightarrow>
   ra_risk_score (assess_risk llm m d ev) = min (mr_risk_score m) 100"
  by (simp add: assess_risk_score_eq composite_risk_score_def)

lemma assess_risk_status_by_score:
  "ra_status (assess_risk llm m d ev) =
     (if ra_risk_score (assess_risk llm m d ev) \<ge> 85 then ''BLOCKED''
      else if ra_risk_score (assess_risk llm m d ev) \<ge> 50 then ''REVIEW''
      else ''APPROVED'')"
  by (simp add: assess_risk_def Let_def)

text \<open>
  C10. With the classifier loaded, \<open>predict_fraud_probability\<close> always returns a
  probability: when the feature step or the inference raises, it returns 0.5 instead of
  raising. A returned 0.5 becomes base risk score 50 in Agent 1, and a base score of 50 is
  never APPROVED by the risk assessor: REVIEW when no adjustment applies.
\<close>

theorem predict_fraud_probability_fallback:
  assumes "MODEL e = Some model"
  shows "(\<exists>p. predict_fraud_probability e txn = Inr p)
       \<and> (\<forall>x. prepared_features e txn = Inl x \<longrightarrow> predict_fraud_probability e txn = Inr 0.5)
       \<and> (\<forall>f x. prepared_features e txn = Inr f \<and> model f = Inl x
                \<longrightarrow> predict_fraud_probability e txn = Inr 0.5)
       \<and> (predict_fraud_probability e txn = Inr 0.5
            \<longrightarrow> (\<exists>m. analyze_transaction e txn = Inr m \<and> mr_risk_score m = 50
                     \<and> (\<forall>llm d ev. ra_status (assess_risk llm m d ev) \<noteq> ''APPROVED'')
                     \<and> (\<forall>llm d ev. ra_adjustments (assess_risk llm m d ev) = []
                           \<longrightarrow> ra_status (assess_risk llm m d ev) = ''REVIEW'')))"
proof -
  have "predict_fraud_probability e txn =
          Inr (case (case prepared_features e txn of Inl x \<Rightarrow> Inl x | Inr f \<Rightarrow> model f) of
                 Inr p \<Rightarrow> p
               | Inl x \<Rightarrow> 0.5)"
    using assms by (simp add: predict_fraud_probability_def split: sum.splits)
  then have total: "\<exists>p. predict_fraud_probability e txn = Inr p"
    by blast
  have prep: "\<forall>x. prepared_features e txn = Inl x \<longrightarrow> predict_fraud_probability e txn = Inr 0.5"
    using assms by (simp add: predict_fraud_probability_def)
  have infer: "\<forall>f x. prepared_features e txn = Inr f \<and> model f = Inl x
                \<longrightarrow> predict_fraud_probability e txn = Inr 0.5"
    using assms by (simp add: predict_fraud_probability_def)
  have band: "\<exists>m. analyze_transaction e txn = Inr m \<and> mr_risk_score m = 50
                     \<and> (\<forall>llm d ev. ra_status (assess_risk llm m d ev) \<noteq> ''APPROVED'')
                     \<and> (\<forall>llm d ev. ra_adjustments (assess_risk llm m d ev) = []
                           \<longrightarrow> ra_status (assess_risk llm m d ev) = ''REVIEW'')"
    if half: "predict_fraud_probability e txn = Inr 0.5"
  proof -
    obtain m where m: "analyze_transaction e txn = Inr m" and s: "mr_risk_score m = 50"
      using half by (simp add: analyze_transaction_def py_int_def Let_def)
    have a: "\<forall>llm d ev. ra_status (assess_risk llm m d ev) \<noteq> ''APPROVED''"
      using assess_risk_status_not_approved [of m] s by simp
    have b: "\<forall>llm d ev. ra_adjustments (assess_risk llm m d ev) = []
                           \<longrightarrow> ra_status (assess_risk llm m d ev) = ''REVIEW''"
      using s by (simp add: assess_risk_status_by_score assess_risk_no_adjustments)
    from m s a b show ?thesis by blast
  qed
  from total prep infer band show ?thesis by blast
qed

theorem predict_fraud_probability_fallback_witness:
  "predict_fraud_probability failing_model_env (example_transaction 200 ''Desktop'') = Inr 0.5
   \<and> (\<exists>m. analyze_transaction failing_model_env (example_transaction 200 ''Desktop'') = Inr m
          \<and> mr_risk_score m = 50
          \<and> ra_status (assess_risk ''r'' m None (example_evidence [])) = ''REVIEW'')"
proof -
  have h: "MODEL failing_model_env = Some (\<lambda>features. Inl (Exception ''inference failed''))"
    by (simp add: failing_model_env_def example_env_def)
  have p: "prepared_features failing_model_env (example_transaction 200 ''Desktop'') = Inr []"
    by (simp add: failing_model_env_def example_env_def)
  have adj: "\<And>m. ra_adjustments (assess_risk ''r'' m None (example_evidence [])) = []"
    by (simp add: assess_risk_def example_evidence_def Let_def append_when_def)
  from predict_fraud_probability_fallback [OF h, of "example_transaction 200 ''Desktop''"] p adj
  show ?thesis by blast
qed

lemma assess_risk_scenario_D:
  assumes "mr_risk_score m = 60"
      and "amount_anomaly_present ev" and "new_device_present ev"
      and "\<not> velocity_anomaly_present ev"
  shows "assess_risk llm m None ev =
           \<lparr> ra_risk_score = 85, ra_base_risk = 60,
             ra_adjustments = [(''Amount anomaly'', 15), (''New device'', 10)],
             ra_status = ''BLOCKED'', ra_confidence = ''very_high'',
             ra_llm_reasoning = llm, ra_agent = ''risk_assessor'',
             ra_case_id = None, ra_alerts_sent = None \<rparr>"
  using assms
  by (simp add: assess_risk_def Let_def append_when_def composite_risk_score_def
        amount_anomaly_present_def velocity_anomaly_present_def new_device_present_def)

lemma handle_escalation_result:
  "handle_escalation e w txn ra ev =
     (\<lparr> er_case_id = case_id_of e,
        er_fraud_report = claude_report e,
        er_evidence_s3_path = save_evidence_package (case_id_of e),
        er_alerts_sent = [Some ''mock-message-id''],
        er_agent = ''escalation_handler'' \<rparr>,
      w\<lparr>MOCK_FRAUD_CASES := (MOCK_FRAUD_CASES w)(case_id_of e \<mapsto>
          \<lparr> fc_case_id = case_id_of e,
            fc_transaction_id = tx_transaction_id txn,
            fc_user_id = tx_user_id txn,
            fc_risk_score = ra_risk_score ra,
            fc_status = ra_status ra,
            fc_amount = get_default (tx_transaction_amount txn) 0,
            fc_fraud_report = claude_report e,
            fc_evidence_s3_path = save_evidence_package (case_id_of e),
            fc_created_at = now_isoformat e \<rparr>)\<rparr>)"
  by (simp add: handle_escalation_def Let_def create_fraud_case_def case_id_of_def
        send_sns_alert_MessageId_def)

lemma collect_evidence_log:
  "collect_evidence e (w\<lparr>agent_log := l\<rparr>) txn = collect_evidence e w txn"
  by (simp add: collect_evidence_def get_user_profile_def)

lemma orchestrate_after_biometric_eq:
  "orchestrate_after_biometric e w txn m d =
     (let ev = collect_evidence e w txn;
          ra0 = assess_risk (claude_risk e) m d ev;
          w1 = w\<lparr>agent_log := agent_log w @ [Evidence_Collector, Risk_Assessor]\<rparr>;
          ra = (if ra_risk_score ra0 \<ge> 70
                then ra0\<lparr>ra_case_id := Some (case_id_of e),
                         ra_alerts_sent := Some [Some ''mock-message-id'']\<rparr>
                else ra0);
          w2 = (if ra_risk_score ra0 \<ge> 70
                then snd (handle_escalation e (announce Escalation_Handler w1) txn ra0 ev)
                else w1)
      in (Inr \<lparr> or_status = ra_status ra0,
                or_risk_score = ra_risk_score ra0,
                or_reason = None,
                or_monitor_result = Some m,
                or_deepfake_result = d,
                or_evidence = Some ev,
                or_risk_assessment = Some ra \<rparr>, w2))"
  by (simp add: orchestrate_after_biometric_def Let_def collect_evidence_log
        handle_escalation_result announce_def)


lemma orchestrate_transaction_no_biometric:
  assumes "analyze_transaction e txn = Inr m"
      and "photo = None \<or> code = None \<or> code = Some []"
  shows "orchestrate_transaction e w txn photo code
         = orchestrate_after_biometric e (announce Transaction_Monitor w) txn m None"
  using assms by (auto simp add: orchestrate_transaction_def Let_def split: option.splits)

text \<open>
  C5 (Scenario D). When Agent 1 yields base score 60, no biometric check takes place, and the
  evidence holds an amount-anomaly pattern and a new-device pattern and no velocity pattern,
  the composite score is 85 and the status BLOCKED; since 85 is at least 70 the escalation
  handler runs, writes a fraud case under the generated case identifier to the case store, and
  that identifier is attached to the risk assessment.
\<close>

theorem scenario_D_blocked_and_escalated:
  assumes "analyze_transaction e txn = Inr m" and "mr_risk_score m = 60"
      and "photo = None \<or> code = None \<or> code = Some []"
      and "amount_anomaly_present (collect_evidence e w txn)"
      and "new_device_present (collect_evidence e w txn)"
      and "\<not> velocity_anomaly_present (collect_evidence e w txn)"
  shows "\<exists>r ra fc w'.
           orchestrate_transaction e w txn photo code = (Inr r, w')
         \<and> or_status r = ''BLOCKED'' \<and> or_risk_score r = 85 \<and> or_deepfake_result r = None
         \<and> or_risk_assessment r = Some ra
         \<and> ra_risk_score ra = 85 \<and> ra_status ra = ''BLOCKED''
         \<and> ra_adjustments ra = [(''Amount anomaly'', 15), (''New device'', 10)]
         \<and> agent_log w' = agent_log w @ [Transaction_Monitor, Evidence_Collector, Risk_Assessor,
                                           Escalation_Handler]
         \<and> MOCK_FRAUD_CASES w' (case_id_of e) = Some fc
         \<and> fc_case_id fc = case_id_of e \<and> fc_transaction_id fc = tx_transaction_id txn
         \<and> fc_risk_score fc = 85 \<and> fc_status fc = ''BLOCKED''
         \<and> ra_case_id ra = Some (fc_case_id fc)"
proof -
  let ?w = "announce Transaction_Monitor w"
  have ev: "collect_evidence e ?w txn = collect_evidence e w txn"
    by (rule collect_evidence_announce)
  have ra0: "assess_risk (claude_risk e) m None (collect_evidence e w txn) =
           \<lparr> ra_risk_score = 85, ra_base_risk = 60,
             ra_adjustments = [(''Amount anomaly'', 15), (''New device'', 10)],
             ra_status = ''BLOCKED'', ra_confidence = ''very_high'',
             ra_llm_reasoning = claude_risk e, ra_agent = ''risk_assessor'',
             ra_case_id = None, ra_alerts_sent = None \<rparr>"
    using assms(2,4,5,6) by (rule assess_risk_scenario_D)
  have run: "orchestrate_transaction e w txn photo code
             = orchestrate_after_biometric e ?w txn m None"
    using assms(1,3) by (rule orchestrate_transaction_no_biometric)
  show ?thesis
    unfolding run orchestrate_after_biometric_eq ev
    by (simp add: Let_def ra0 handle_escalation_result announce_def)
qed

lemma collect_evidence_example:
  "ev_detected_patterns (collect_evidence (example_env h p det) empty_world
       (example_transaction 9000 ''Tablet''))
   = [''Amount 9x higher than normal'', ''New device detected'']"
  by (simp add: collect_evidence_def Let_def append_when_def example_env_def empty_world_def
        example_transaction_def get_user_profile_def get_default_def mock_history_def
        is_within_24h_def py_int_def str_int_def str_nat.simps digit_char_def)

lemma case_id_example: "case_id_of (example_env h p det) = ''FA-20261104-4711''"
  by (simp add: case_id_of_def example_env_def str_nat.simps digit_char_def)

theorem scenario_D_blocked_and_escalated_witness:
  "\<exists>r ra fc w'.
      orchestrate_transaction (example_env 12 (real_of_int 60 / 100) genuine_detection) empty_world
        (example_transaction 9000 ''Tablet'') None None = (Inr r, w')
    \<and> or_status r = ''BLOCKED'' \<and> or_risk_score r = 85
    \<and> or_risk_assessment r = Some ra \<and> ra_risk_score ra = 85
    \<and> agent_log w' = [Transaction_Monitor, Evidence_Collector, Risk_Assessor, Escalation_Handler]
    \<and> MOCK_FRAUD_CASES w' ''FA-20261104-4711'' = Some fc
    \<and> fc_case_id fc = ''FA-20261104-4711'' \<and> fc_risk_score fc = 85
    \<and> ra_case_id ra = Some ''FA-20261104-4711''"
proof -
  let ?e = "example_env 12 (real_of_int 60 / 100) genuine_detection"
  let ?t = "example_transaction 9000 ''Tablet''"
  note h1 = analyze_transaction_example [of 12 60 genuine_detection ?t]
  have h3: "None = None \<or> None = None \<or> None = Some []" by simp
  have h4: "amount_anomaly_present (collect_evidence ?e empty_world ?t)"
    by (simp add: amount_anomaly_present_def collect_evidence_example py_in_str_eval)
  have h5: "new_device_present (collect_evidence ?e empty_world ?t)"
    by (simp add: new_device_present_def collect_evidence_example py_in_str_eval)
  have h6: "\<not> velocity_anomaly_present (collect_evidence ?e empty_world ?t)"
    by (simp add: velocity_anomaly_present_def collect_evidence_example py_in_str_eval)
  have h2: "mr_risk_score
      \<lparr> mr_fraud_probability = real_of_int 60 / 100, mr_risk_score = 60,
        mr_llm_explanation = ''monitor text'',
        mr_recommendation = (if (60::int) \<ge> 85 then ''BLOCK'' else if (60::int) \<ge> 60 then ''REVIEW''
                             else ''APPROVE''),
        mr_agent = ''transaction_monitor'' \<rparr> = 60"
    by simp
  from scenario_D_blocked_and_escalated [OF h1 h2 h3 h4 h5 h6]
  obtain r ra fc w' where
    "orchestrate_transaction ?e empty_world ?t None None = (Inr r, w')"
    "or_status r = ''BLOCKED''" "or_risk_score r = 85"
    "or_risk_assessment r = Some ra" "ra_risk_score ra = 85"
    "agent_log w' = agent_log empty_world @ [Transaction_Monitor, Evidence_Collector, Risk_Assessor,
                                           Escalation_Handler]"
    "MOCK_FRAUD_CASES w' (case_id_of ?e) = Some fc"
    "fc_case_id fc = case_id_of ?e" "fc_risk_score fc = 85"
    "ra_case_id ra = Some (fc_case_id fc)"
    by blast
  then show ?thesis
    by (simp add: case_id_example empty_world_def)

qed

lemma orchestrate_transaction_full_run:
  assumes "orchestrate_transaction e w txn photo code = (Inr r, w')"
      and "or_risk_assessment r = Some ra"
  shows "\<exists>m d. analyze_transaction e txn = Inr m
           \<and> orchestrate_after_biometric e
                (w\<lparr>agent_log := agent_log w @ [Transaction_Monitor]
                       @ (case d of None \<Rightarrow> [] | Some x \<Rightarrow> [Deepfake_Detector])\<rparr>) txn m d
              = (Inr r, w')"
  using assms
  by (auto simp add: orchestrate_transaction_def Let_def announce_def
        split: sum.splits option.splits if_splits)

text \<open>
  C9, amended. In every run that ends with a risk assessment, the assessment returned differs
  from the one \<open>assess_risk\<close> created only in the keys \<open>case_id\<close> and \<open>alerts_sent\<close>: score,
  base score, adjustments, status, confidence, reasoning and agent are as created; both keys
  are absent at creation; and the orchestrator sets both, from the escalation handler's result,
  exactly when the score is at least 70, which is exactly when the escalation handler ran.
\<close>

theorem escalation_adds_case_id_and_alerts_sent:
  assumes "orchestrate_transaction e w txn photo code = (Inr r, w')"
      and "or_risk_assessment r = Some ra"
  shows "\<exists>m ev ra0.
           or_monitor_result r = Some m \<and> or_evidence r = Some ev
         \<and> ra0 = assess_risk (claude_risk e) m (or_deepfake_result r) ev
         \<and> ra_case_id ra0 = None \<and> ra_alerts_sent ra0 = None
         \<and> ra_risk_score ra = ra_risk_score ra0 \<and> ra_base_risk ra = ra_base_risk ra0
         \<and> ra_adjustments ra = ra_adjustments ra0 \<and> ra_status ra = ra_status ra0
         \<and> ra_confidence ra = ra_confidence ra0 \<and> ra_llm_reasoning ra = ra_llm_reasoning ra0
         \<and> ra_agent ra = ra_agent ra0
         \<and> ra_case_id ra = (if 70 \<le> ra_risk_score ra0 then Some (case_id_of e) else None)
         \<and> ra_alerts_sent ra
             = (if 70 \<le> ra_risk_score ra0 then Some [Some ''mock-message-id''] else None)
         \<and> agent_log w' = agent_log w @ [Transaction_Monitor]
             @ (case or_deepfake_result r of None \<Rightarrow> [] | Some x \<Rightarrow> [Deepfake_Detector])
             @ [Evidence_Collector, Risk_Assessor]
             @ (if 70 \<le> ra_risk_score ra0 then [Escalation_Handler] else [])"
proof -
  from orchestrate_transaction_full_run [OF assms]
  obtain m d where
    run: "orchestrate_after_biometric e
            (w\<lparr>agent_log := agent_log w @ [Transaction_Monitor]
                   @ (case d of None \<Rightarrow> [] | Some x \<Rightarrow> [Deepfake_Detector])\<rparr>) txn m d
          = (Inr r, w')"
    by blast
  let ?ev = "collect_evidence e w txn"
  let ?ra0 = "assess_risk (claude_risk e) m d ?ev"
  have created: "ra_case_id ?ra0 = None \<and> ra_alerts_sent ?ra0 = None"
    by (simp add: assess_risk_def Let_def)
  from run have res:
      "or_monitor_result r = Some m" "or_evidence r = Some ?ev" "or_deepfake_result r = d"
      "or_risk_assessment r =
         Some (if 70 \<le> ra_risk_score ?ra0
               then ?ra0\<lparr>ra_case_id := Some (case_id_of e),
                          ra_alerts_sent := Some [Some ''mock-message-id'']\<rparr>
               else ?ra0)"
      "agent_log w' = agent_log w @ [Transaction_Monitor]
             @ (case d of None \<Rightarrow> [] | Some x \<Rightarrow> [Deepfake_Detector])
             @ [Evidence_Collector, Risk_Assessor]
             @ (if 70 \<le> ra_risk_score ?ra0 then [Escalation_Handler] else [])"
    unfolding orchestrate_after_biometric_eq
    by (auto simp add: Let_def collect_evidence_log handle_escalation_result announce_def
          split: if_splits)
  from res(4) assms(2) have ra:
      "ra = (if 70 \<le> ra_risk_score ?ra0
             then ?ra0\<lparr>ra_case_id := Some (case_id_of e),
                        ra_alerts_sent := Some [Some ''mock-message-id'']\<rparr>
             else ?ra0)"
    by simp
  show ?thesis
    apply (rule exI [of _ m])
    apply (rule exI [of _ ?ev])
    apply (rule exI [of _ ?ra0])
    using res(1,2,3,5) created by (simp add: ra)
qed

text \<open>
  C9, as stated, fails: after an escalation the risk assessment also carries the key
  \<open>alerts_sent\<close>, which the assessment as created does not have.
\<close>

theorem escalation_adds_alerts_sent_example:
  "map_option ra_alerts_sent
     (final_risk_assessment
        (orchestrate_transaction (example_env 12 (real_of_int 60 / 100) genuine_detection)
           empty_world (example_transaction 9000 ''Tablet'') None None))
   = Some (Some [Some ''mock-message-id''])
   \<and> ra_alerts_sent
       (assess_risk ''risk text''
          \<lparr> mr_fraud_probability = real_of_int 60 / 100, mr_risk_score = 60,
            mr_llm_explanation = ''monitor text'', mr_recommendation = ''REVIEW'',
            mr_agent = ''transaction_monitor'' \<rparr>
          None
          (collect_evidence (example_env 12 (real_of_int 60 / 100) genuine_detection) empty_world
             (example_transaction 9000 ''Tablet'')))
     = None"
proof -
  let ?e = "example_env 12 (real_of_int 60 / 100) genuine_detection"
  let ?t = "example_transaction 9000 ''Tablet''"
  let ?m = "\<lparr> mr_fraud_probability = real_of_int 60 / 100, mr_risk_score = 60,
            mr_llm_explanation = ''monitor text'', mr_recommendation = ''REVIEW'',
            mr_agent = ''transaction_monitor'' \<rparr>"
  have h1: "analyze_transaction ?e ?t = Inr ?m"
    using analyze_transaction_example [of 12 60 genuine_detection ?t] by simp
  have h4: "amount_anomaly_present (collect_evidence ?e empty_world ?t)"
    by (simp add: amount_anomaly_present_def collect_evidence_example py_in_str_eval)
  have h5: "new_device_present (collect_evidence ?e empty_world ?t)"
    by (simp add: new_device_present_def collect_evidence_example py_in_str_eval)
  have h6: "\<not> velocity_anomaly_present (collect_evidence ?e empty_world ?t)"
    by (simp add: velocity_anomaly_present_def collect_evidence_example py_in_str_eval)
  have ra0: "assess_risk (claude_risk ?e) ?m None (collect_evidence ?e empty_world ?t) =
           \<lparr> ra_risk_score = 85, ra_base_risk = 60,
             ra_adjustments = [(''Amount anomaly'', 15), (''New device'', 10)],
             ra_status = ''BLOCKED'', ra_confidence = ''very_high'',
             ra_llm_reasoning = claude_risk ?e, ra_agent = ''risk_assessor'',
             ra_case_id = None, ra_alerts_sent = None \<rparr>"
    by (rule assess_risk_scenario_D [OF _ h4 h5 h6]) simp
  have run: "orchestrate_transaction ?e empty_world ?t None None
             = orchestrate_after_biometric ?e (announce Transaction_Monitor empty_world) ?t ?m None"
    by (rule orchestrate_transaction_no_biometric [OF h1]) simp
  have a: "map_option ra_alerts_sent
     (final_risk_assessment (orchestrate_transaction ?e empty_world ?t None None))
   = Some (Some [Some ''mock-message-id''])"
    unfolding run orchestrate_after_biometric_eq collect_evidence_announce Let_def ra0
    by (simp add: final_risk_assessment_def)
  have b: "ra_alerts_sent (assess_risk ''risk text'' ?m None (collect_evidence ?e empty_world ?t)) = None"
    by (simp add: assess_risk_def Let_def)
  from a b show ?thesis by blast
qed


theorem escalation_adds_case_id_and_alerts_sent_witness:
  "\<exists>r w' ra.
      orchestrate_transaction (example_env 12 (real_of_int 60 / 100) genuine_detection) empty_world
        (example_transaction 9000 ''Tablet'') None None = (Inr r, w')
    \<and> or_risk_assessment r = Some ra
    \<and> ra_risk_score ra = 85 \<and> ra_status ra = ''BLOCKED''
    \<and> ra_adjustments ra = [(''Amount anomaly'', 15), (''New device'', 10)]
    \<and> ra_case_id ra = Some ''FA-20261104-4711''
    \<and> ra_alerts_sent ra = Some [Some ''mock-message-id'']
    \<and> agent_log w' = [Transaction_Monitor, Evidence_Collector, Risk_Assessor, Escalation_Handler]"
proof -
  let ?e = "example_env 12 (real_of_int 60 / 100) genuine_detection"
  let ?t = "example_transaction 9000 ''Tablet''"
  let ?m = "\<lparr> mr_fraud_probability = real_of_int 60 / 100, mr_risk_score = 60,
            mr_llm_explanation = ''monitor text'', mr_recommendation = ''REVIEW'',
            mr_agent = ''transaction_monitor'' \<rparr>"
  let ?ev = "collect_evidence ?e empty_world ?t"
  have h1: "analyze_transaction ?e ?t = Inr ?m"
    using analyze_transaction_example [of 12 60 genuine_detection ?t] by simp
  have h4: "amount_anomaly_present ?ev"
    by (simp add: amount_anomaly_present_def collect_evidence_example py_in_str_eval)
  have h5: "new_device_present ?ev"
    by (simp add: new_device_present_def collect_evidence_example py_in_str_eval)
  have h6: "\<not> velocity_anomaly_present ?ev"
    by (simp add: velocity_anomaly_present_def collect_evidence_example py_in_str_eval)
  have ra0: "assess_risk (claude_risk ?e) ?m None ?ev =
           \<lparr> ra_risk_score = 85, ra_base_risk = 60,
             ra_adjustments = [(''Amount anomaly'', 15), (''New device'', 10)],
             ra_status = ''BLOCKED'', ra_confidence = ''very_high'',
             ra_llm_reasoning = claude_risk ?e, ra_agent = ''risk_assessor'',
             ra_case_id = None, ra_alerts_sent = None \<rparr>"
    by (rule assess_risk_scenario_D [OF _ h4 h5 h6]) simp
  have run: "orchestrate_transaction ?e empty_world ?t None None
             = orchestrate_after_biometric ?e (announce Transaction_Monitor empty_world) ?t ?m None"
    by (rule orchestrate_transaction_no_biometric [OF h1]) simp
  have "\<exists>r w' ra. orchestrate_transaction ?e empty_world ?t None None = (Inr r, w')
          \<and> or_risk_assessment r = Some ra \<and> or_monitor_result r = Some ?m
          \<and> or_evidence r = Some ?ev \<and> or_deepfake_result r = None
          \<and> agent_log empty_world = []"
    unfolding run orchestrate_after_biometric_eq collect_evidence_announce Let_def
    by (simp add: empty_world_def)
  then obtain r w' ra where
      rw: "orchestrate_transaction ?e empty_world ?t None None = (Inr r, w')"
      and rra: "or_risk_assessment r = Some ra"
      and rm: "or_monitor_result r = Some ?m"
      and rev: "or_evidence r = Some ?ev"
      and rd: "or_deepfake_result r = None"
      and log0: "agent_log empty_world = []"
    by blast
  from escalation_adds_case_id_and_alerts_sent [OF rw rra] rm rev rd
  have "ra_risk_score ra = ra_risk_score (assess_risk (claude_risk ?e) ?m None ?ev)"
       "ra_status ra = ra_status (assess_risk (claude_risk ?e) ?m None ?ev)"
       "ra_adjustments ra = ra_adjustments (assess_risk (claude_risk ?e) ?m None ?ev)"
       "ra_case_id ra = (if 70 \<le> ra_risk_score (assess_risk (claude_risk ?e) ?m None ?ev)
                         then Some (case_id_of ?e) else None)"
       "ra_alerts_sent ra = (if 70 \<le> ra_risk_score (assess_risk (claude_risk ?e) ?m None ?ev)
                             then Some [Some ''mock-message-id''] else None)"
       "agent_log w' = agent_log empty_world @ [Transaction_Monitor] @ []
             @ [Evidence_Collector, Risk_Assessor]
             @ (if 70 \<le> ra_risk_score (assess_risk (claude_risk ?e) ?m None ?ev)
                then [Escalation_Handler] else [])"
    by auto
  then have "ra_risk_score ra = 85 \<and> ra_status ra = ''BLOCKED''
    \<and> ra_adjustments ra = [(''Amount anomaly'', 15), (''New device'', 10)]
    \<and> ra_case_id ra = Some ''FA-20261104-4711''
    \<and> ra_alerts_sent ra = Some [Some ''mock-message-id'']
    \<and> agent_log w' = [Transaction_Monitor, Evidence_Collector, Risk_Assessor, Escalation_Handler]"
    unfolding ra0 log0 by (simp add: case_id_example)
  with rw rra show ?thesis by blast
qed

section \<open>Properties of the biometric verifier adapter\<close>

lemma round_half_even_near: "\<bar>real_of_int (round_half_even x) - x\<bar> \<le> 1 / 2"
  unfolding round_half_even_def Let_def by (auto split: if_splits)

lemma py_round2_near: "\<bar>py_round2 x - x\<bar> \<le> 1 / 200"
proof -
  have "\<bar>real_of_int (round_half_even (x * 100)) - x * 100\<bar> \<le> 1 / 2"
    by (rule round_half_even_near)
  then show ?thesis unfolding py_round2_def by (simp add: field_simps abs_le_iff)
qed

lemma parse_is_authentic:
  "va_is_authentic (parse_deepfake_result r) =
     (status_verified r \<and> face_match_passed r \<and> is_real_passed r \<and> is_live_passed r)"
  by (auto simp add: parse_deepfake_result_def Let_def get_default_def status_verified_def
        face_match_passed_def is_real_passed_def is_live_passed_def no_face_comparison_def
        no_quality_check_def no_liveness_check_def split: option.splits)

lemma parse_overall_confidence:
  "va_overall_confidence (parse_deepfake_result r) = py_round2 (mean_confidence r)"
  by (simp add: parse_deepfake_result_def Let_def get_default_def mean_confidence_def
        face_confidence_def quality_confidence_def liveness_confidence_def no_face_comparison_def
        no_quality_check_def no_liveness_check_def add.assoc split: option.splits)

lemmas confidence_eval = mean_confidence_def face_confidence_def quality_confidence_def
  liveness_confidence_def verified_response_def bare_response_def py_round2_def
  round_half_even_def Let_def

text \<open>
  C6, as stated, fails in its second half: the overall confidence of the normalized result is
  the mean rounded to two decimal places. With confidences 100, missing, missing the mean is
  100/3 and the result carries 33.33.
\<close>

theorem parse_deepfake_result_confidence_is_rounded:
  "mean_confidence (verified_response (Some 100) None None) = 100 / 3
   \<and> va_overall_confidence (parse_deepfake_result (verified_response (Some 100) None None))
       = 3333 / 100
   \<and> va_overall_confidence (parse_deepfake_result (verified_response (Some 100) None None))
       \<noteq> mean_confidence (verified_response (Some 100) None None)"
  by (simp add: parse_overall_confidence confidence_eval)

text \<open>
  C6, amended. The normalized result is authentic exactly when the overall status is
  \<open>VERIFIED\<close> and the face match, the is-real check and the liveness check all passed, an
  absent sub-field failing its condition; and its overall confidence is the arithmetic mean
  of the three sub-check confidences, a missing or zero confidence counting as 0 among the
  three, rounded to two decimal places (so within 0.005 of the mean).
\<close>

theorem parse_deepfake_result_normalized:
  "va_is_authentic (parse_deepfake_result r) =
     (status_verified r \<and> face_match_passed r \<and> is_real_passed r \<and> is_live_passed r)
   \<and> va_overall_confidence (parse_deepfake_result r) = py_round2 (mean_confidence r)
   \<and> \<bar>va_overall_confidence (parse_deepfake_result r) - mean_confidence r\<bar> \<le> 1 / 200"
  using py_round2_near [of "mean_confidence r"]
  by (simp only: parse_is_authentic parse_overall_confidence simp_thms)

theorem parse_deepfake_result_normalized_witness:
  "va_is_authentic (parse_deepfake_result (verified_response (Some 99) (Some 98) (Some 97)))
   \<and> va_overall_confidence (parse_deepfake_result (verified_response (Some 99) (Some 98) (Some 97)))
       = 98
   \<and> \<not> va_is_authentic (parse_deepfake_result bare_response)
   \<and> va_overall_confidence (parse_deepfake_result bare_response) = 0"
  using parse_deepfake_result_normalized [of "verified_response (Some 99) (Some 98) (Some 97)"]
    parse_deepfake_result_normalized [of bare_response]
  by (simp add: confidence_eval status_verified_def face_match_passed_def is_real_passed_def
        is_live_passed_def)

section \<open>Properties of the Nova risk assessor\<close>

lemma nova_assess_risk_total: "\<exists>a. nova_assess_risk nv dr = Inr a"
  by (simp add: nova_assess_risk_def split: sum.splits)

lemma nova_assess_risk_parse_failure:
  assumes "build_risk_assessment_prompt nv = Inr prompt"
      and "call_nova nv prompt = Inr nova_response"
      and "json_loads nv nova_response = Inl JSONDecodeError"
  shows "nova_assess_risk nv dr =
     Inr (JObj [(''final_verdict'', JStr ''REVIEW''),
           (''confidence_score'', JNum 50),
           (''risk_level'', JStr ''MEDIUM''),
           (''risk_summary'', JStr ''Unable to parse comprehensive assessment''),
           (''key_findings'', JArr [JStr ''System error in risk assessment'']),
           (''decision_reasoning'', JStr (take 500 nova_response)),
           (''recommended_action'', JStr ''Manual review required''),
           (''agent'', JStr ''risk_assessor''),
           (''timestamp'', JStr (nova_now_isoformat nv)),
           (''agents_analyzed'',
            JObj [(''fraud_detection'', JBool True),
                  (''evidence_collection'', JBool True),
                  (''biometric_verification'', JBool (biometric_verification_analyzed dr))])])"
  using assms
  by (simp add: nova_assess_risk_def nova_assess_risk_body_def loads_or_def set_item_def
        parse_fallback_assessment_def)

lemma nova_assess_risk_not_object:
  assumes "build_risk_assessment_prompt nv = Inr prompt"
      and "call_nova nv prompt = Inr nova_response"
      and "json_loads nv nova_response = Inr v"
      and "\<forall>d. v \<noteq> JObj d"
  shows "nova_assess_risk nv dr =
     Inr (JObj (error_assessment nv (TypeError ''object does not support item assignment'')))"
  using assms
  by (cases v) (simp_all add: nova_assess_risk_def nova_assess_risk_body_def loads_or_def set_item_def)


lemma nova_analyze_transaction_parse_failure:
  assumes "predict_fraud nv = Inr ml"
      and "call_nova nv (build_fraud_analysis_prompt nv ml) = Inr nova_response"
      and "json_loads nv nova_response = Inl JSONDecodeError"
  shows "\<exists>fa. nova_analyze_transaction nv tid = Inr fa \<and> fa_final_verdict fa = JStr ''REVIEW''"
  using assms
  by (simp add: nova_analyze_transaction_def loads_or_def get_default_def)

text \<open>
  C7. The Risk Synthesizer of the Nova agent set always returns an assessment and never
  raises. When the collaborator's response is not JSON (\<open>json.loads\<close> raises
  \<open>JSONDecodeError\<close>), the assessment is the fixed fallback: verdict REVIEW, confidence score
  50, risk level MEDIUM, the summary "Unable to parse comprehensive assessment", the action
  "Manual review required", and no \<open>error\<close> key. When the response is JSON but no object,
  the assessment is the error fallback: verdict REVIEW with confidence score 0.
\<close>

theorem nova_assess_risk_parse_fallback:
  "(\<exists>a. nova_assess_risk nv dr = Inr a)
   \<and> (\<forall>prompt nova_response.
         build_risk_assessment_prompt nv = Inr prompt
         \<and> call_nova nv prompt = Inr nova_response
         \<and> json_loads nv nova_response = Inl JSONDecodeError
         \<longrightarrow> (\<exists>a. nova_assess_risk nv dr = Inr a
                \<and> json_get a ''final_verdict'' = Some (JStr ''REVIEW'')
                \<and> json_get a ''confidence_score'' = Some (JNum 50)
                \<and> json_get a ''risk_level'' = Some (JStr ''MEDIUM'')
                \<and> json_get a ''risk_summary''
                    = Some (JStr ''Unable to parse comprehensive assessment'')
                \<and> json_get a ''decision_reasoning'' = Some (JStr (take 500 nova_response))
                \<and> json_get a ''recommended_action'' = Some (JStr ''Manual review required'')
                \<and> json_get a ''error'' = None))
   \<and> (\<forall>prompt nova_response v.
         build_risk_assessment_prompt nv = Inr prompt
         \<and> call_nova nv prompt = Inr nova_response
         \<and> json_loads nv nova_response = Inr v \<and> (\<forall>d. v \<noteq> JObj d)
         \<longrightarrow> (\<exists>a. nova_assess_risk nv dr = Inr a
                \<and> json_get a ''final_verdict'' = Some (JStr ''REVIEW'')
                \<and> json_get a ''confidence_score'' = Some (JNum 0)
                \<and> json_get a ''recommended_action'' = Some (JStr ''Manual review required'')))"
proof -
  have garbage: "\<exists>a. nova_assess_risk nv dr = Inr a
                \<and> json_get a ''final_verdict'' = Some (JStr ''REVIEW'')
                \<and> json_get a ''confidence_score'' = Some (JNum 50)
                \<and> json_get a ''risk_level'' = Some (JStr ''MEDIUM'')
                \<and> json_get a ''risk_summary''
                    = Some (JStr ''Unable to parse comprehensive assessment'')
                \<and> json_get a ''decision_reasoning'' = Some (JStr (take 500 nova_response))
                \<and> json_get a ''recommended_action'' = Some (JStr ''Manual review required'')
                \<and> json_get a ''error'' = None"
    if "build_risk_assessment_prompt nv = Inr prompt" "call_nova nv prompt = Inr nova_response"
       "json_loads nv nova_response = Inl JSONDecodeError" for prompt nova_response
    unfolding nova_assess_risk_parse_failure [OF that] by (simp add: json_get_def)
  have other: "\<exists>a. nova_assess_risk nv dr = Inr a
                \<and> json_get a ''final_verdict'' = Some (JStr ''REVIEW'')
                \<and> json_get a ''confidence_score'' = Some (JNum 0)
                \<and> json_get a ''recommended_action'' = Some (JStr ''Manual review required'')"
    if "build_risk_assessment_prompt nv = Inr prompt" "call_nova nv prompt = Inr nova_response"
       "json_loads nv nova_response = Inr v" "\<forall>d. v \<noteq> JObj d" for prompt nova_response v
    unfolding nova_assess_risk_not_object [OF that]
    by (simp add: json_get_def error_assessment_def)
  from nova_assess_risk_total [of nv dr] garbage other show ?thesis by blast
qed

theorem nova_assess_risk_parse_fallback_witness:
  "(\<exists>a. nova_assess_risk (example_nova_env ''I am sorry, no JSON today'') None = Inr a
        \<and> json_get a ''final_verdict'' = Some (JStr ''REVIEW'')
        \<and> json_get a ''confidence_score'' = Some (JNum 50))
   \<and> (\<exists>a. nova_assess_risk (example_nova_env ''[1]'') None = Inr a
        \<and> json_get a ''final_verdict'' = Some (JStr ''REVIEW'')
        \<and> json_get a ''confidence_score'' = Some (JNum 0))"
proof -
  let ?g = "example_nova_env ''I am sorry, no JSON today''"
  let ?l = "example_nova_env ''[1]''"
  have g: "build_risk_assessment_prompt ?g = Inr ''risk prompt''
           \<and> call_nova ?g ''risk prompt'' = Inr ''I am sorry, no JSON today''
           \<and> json_loads ?g ''I am sorry, no JSON today'' = Inl JSONDecodeError"
    by (simp add: example_nova_env_def)
  have l: "build_risk_assessment_prompt ?l = Inr ''risk prompt''
           \<and> call_nova ?l ''risk prompt'' = Inr ''[1]''
           \<and> json_loads ?l ''[1]'' = Inr (JArr [JNum 1]) \<and> (\<forall>d. JArr [JNum 1] \<noteq> JObj d)"
    by (simp add: example_nova_env_def)
  from nova_assess_risk_parse_fallback [of ?g None] g
  have a: "\<exists>a. nova_assess_risk ?g None = Inr a
        \<and> json_get a ''final_verdict'' = Some (JStr ''REVIEW'')
        \<and> json_get a ''confidence_score'' = Some (JNum 50)"
    by blast
  from nova_assess_risk_parse_fallback [of ?l None] l
  have b: "\<exists>a. nova_assess_risk ?l None = Inr a
        \<and> json_get a ''final_verdict'' = Some (JStr ''REVIEW'')
        \<and> json_get a ''confidence_score'' = Some (JNum 0)"
    by blast
  from a b show ?thesis by blast
qed

end
